theory Spec2Isabelle
  imports Complex_Main
begin

section \<open>Python values used by cpu.py\<close>

text \<open>
  The program \<^verbatim>\<open>src/cpu.py\<close> queries the host through \<^verbatim>\<open>platform\<close>,
  \<^verbatim>\<open>psutil\<close>, \<^verbatim>\<open>subprocess\<close> and \<^verbatim>\<open>open\<close>, formats what it gets and prints
  a report. The embedding takes everything the host returns as a record \<open>host\<close> and
  translates each function of the source into a HOL function of that record.

  Text is a \<open>string\<close> (8-bit characters; the two non-ASCII literals of the source, the
  degree sign and the warning glyph, are written as their UTF-8 bytes). A Python \<open>dict\<close>
  is an association list in insertion order; \<open>dict_set\<close> is the assignment \<^verbatim>\<open>d[k] = v\<close>.
\<close>

type_synonym ('k, 'v) dict = "('k \<times> 'v) list"

fun dict_set :: "'k \<Rightarrow> 'v \<Rightarrow> ('k, 'v) dict \<Rightarrow> ('k, 'v) dict" where
  "dict_set k v [] = [(k, v)]"
| "dict_set k v ((k', v') # d) = (if k' = k then (k, v) # d else (k', v') # dict_set k v d)"

definition dict_keys :: "('k, 'v) dict \<Rightarrow> 'k list" where
  "dict_keys d = map fst d"

definition dict_has :: "'k \<Rightarrow> ('k, 'v) dict \<Rightarrow> bool" where
  "dict_has k d = (k \<in> set (dict_keys d))"

subsection \<open>Exceptions\<close>

text \<open>
  Every exception that can reach a handler of the source is an instance of
  \<^verbatim>\<open>Exception\<close>; \<open>exn_message\<close> is what \<^verbatim>\<open>str(e)\<close> returns.
\<close>

datatype exn_class =
    PermissionError | FileNotFoundError | OSError | ImportError | AttributeError
  | TimeoutExpired | ZeroDivisionError | OverflowError | TypeError | OtherException

datatype exn = Exn (exn_class: exn_class) (exn_message: string)

definition bind_exn :: "exn + 'a \<Rightarrow> ('a \<Rightarrow> exn + 'b) \<Rightarrow> exn + 'b" where
  "bind_exn r f = (case r of Inl e \<Rightarrow> Inl e | Inr v \<Rightarrow> f v)"

subsection \<open>Integers as text\<close>

definition digit_char :: "nat \<Rightarrow> char" where
  "digit_char d = char_of (48 + d)"

function str_nat :: "nat \<Rightarrow> string" where
  "str_nat n = (if n < 10 then [digit_char n] else str_nat (n div 10) @ [digit_char (n mod 10)])"
  by pat_completeness auto
termination
  by (relation "measure id") auto

declare str_nat.simps [simp del]

definition str_int :: "int \<Rightarrow> string" where
  "str_int i = (if i < 0 then CHR ''-'' # str_nat (nat (- i)) else str_nat (nat i))"

subsection \<open>Floats\<close>

text \<open>
  A finite binary64 value is the rational it denotes. \<open>round_double\<close> rounds a rational
  to the nearest binary64 value (53 significant bits, least exponent \<open>-1074\<close>, ties to
  even); the caller checks the result against \<open>2 ^ 1024\<close>. Signed zeros and NaN do not
  arise from the operations of this program and are not represented.
\<close>

datatype pyfloat = Finite rat | PosInf | NegInf

function bit_length :: "nat \<Rightarrow> nat" where
  "bit_length n = (if n = 0 then 0 else Suc (bit_length (n div 2)))"
  by pat_completeness auto
termination
  by (relation "measure id") auto

declare bit_length.simps [simp del]

definition pow2 :: "int \<Rightarrow> rat" where
  "pow2 e = (if 0 \<le> e then 2 ^ nat e else 1 / 2 ^ nat (- e))"

definition floor_log2 :: "rat \<Rightarrow> int" where
  "floor_log2 q =
     (if 1 \<le> q then int (bit_length (nat \<lfloor>q\<rfloor>)) - 1
      else - int (bit_length (nat (\<lceil>1 / q\<rceil> - 1))))"

definition round_half_even :: "rat \<Rightarrow> int" where
  "round_half_even x =
     (let f = \<lfloor>x\<rfloor>; d = x - of_int f
      in if d < 1 / 2 then f
         else if 1 / 2 < d then f + 1
         else if even f then f else f + 1)"

definition round_double :: "rat \<Rightarrow> rat" where
  "round_double q =
     (if q = 0 then 0
      else let e = max (floor_log2 \<bar>q\<bar> - 52) (- 1074)
           in of_int (round_half_even (q / pow2 e)) * pow2 e)"

definition double_max_bound :: rat where
  "double_max_bound = 2 ^ 1024"

text \<open>\<^verbatim>\<open>a / b\<close> on two Python ints: the correctly rounded quotient, or an exception.\<close>

definition py_truediv :: "int \<Rightarrow> int \<Rightarrow> exn + rat" where
  "py_truediv a b =
     (if b = 0 then Inl (Exn ZeroDivisionError ''division by zero'')
      else let r = round_double (of_int a / of_int b)
           in if double_max_bound \<le> \<bar>r\<bar>
              then Inl (Exn OverflowError ''integer division result too large for a float'')
              else Inr r)"

text \<open>\<^verbatim>\<open>x * k\<close> on a float and an int constant: overflow gives an infinity, no exception.\<close>

definition py_fmul :: "rat \<Rightarrow> int \<Rightarrow> pyfloat" where
  "py_fmul x k =
     (let r = round_double (x * of_int k)
      in if double_max_bound \<le> r then PosInf
         else if r \<le> - double_max_bound then NegInf
         else Finite r)"

text \<open>\<^verbatim>\<open>x > k\<close> on a float and an int constant.\<close>

fun py_gt :: "pyfloat \<Rightarrow> int \<Rightarrow> bool" where
  "py_gt (Finite x) k = (of_int k < x)"
| "py_gt PosInf k = True"
| "py_gt NegInf k = False"

text \<open>
  The format specification \<^verbatim>\<open>.\<close>\<open>p\<close>\<^verbatim>\<open>f\<close>: the exact value rounded to \<open>p\<close> decimals,
  ties to even, with a minus sign for a negative value.
\<close>

definition zero_pad :: "nat \<Rightarrow> string \<Rightarrow> string" where
  "zero_pad w s = replicate (w - length s) CHR ''0'' @ s"

definition format_fixed :: "nat \<Rightarrow> rat \<Rightarrow> string" where
  "format_fixed p x =
     (let s = nat (round_half_even (\<bar>x\<bar> * 10 ^ p))
      in (if x < 0 then ''-'' else '''')
         @ str_nat (s div 10 ^ p)
         @ (if p = 0 then '''' else CHR ''.'' # zero_pad p (str_nat (s mod 10 ^ p))))"

fun py_format_f :: "nat \<Rightarrow> pyfloat \<Rightarrow> string" where
  "py_format_f p (Finite x) = format_fixed p x"
| "py_format_f p PosInf = ''inf''"
| "py_format_f p NegInf = ''-inf''"

subsection \<open>String methods\<close>

definition is_space :: "char \<Rightarrow> bool" where
  "is_space c = (c = CHR '' '' \<or> c \<in> set (map char_of [9, 10, 11, 12, 13, 28, 29, 30, 31 :: nat]))"

definition py_strip :: "string \<Rightarrow> string" where
  "py_strip s = rev (dropWhile is_space (rev (dropWhile is_space s)))"

fun py_split :: "char \<Rightarrow> string \<Rightarrow> string list" where
  "py_split c [] = [[]]"
| "py_split c (x # xs) =
     (if x = c then [] # py_split c xs
      else (case py_split c xs of [] \<Rightarrow> [[x]] | w # ws \<Rightarrow> (x # w) # ws))"

text \<open>\<^verbatim>\<open>s.split(c, 1)\<close> for a string that contains \<open>c\<close>.\<close>

definition py_split_once :: "char \<Rightarrow> string \<Rightarrow> string \<times> string" where
  "py_split_once c s = (takeWhile (\<lambda>x. x \<noteq> c) s, tl (dropWhile (\<lambda>x. x \<noteq> c) s))"

fun starts_with :: "string \<Rightarrow> string \<Rightarrow> bool" where
  "starts_with [] s = True"
| "starts_with (a # as) [] = False"
| "starts_with (a # as) (b # bs) = (a = b \<and> starts_with as bs)"

fun str_contains :: "string \<Rightarrow> string \<Rightarrow> bool" where
  "str_contains sub [] = (sub = [])"
| "str_contains sub (c # cs) = (starts_with sub (c # cs) \<or> str_contains sub cs)"

text \<open>
  Builtins of the Python runtime whose result no property below depends on. They are
  parameters of the functions that call them.
\<close>

record pyrt =
  float_str :: "rat \<Rightarrow> string"
  strftime :: "rat \<Rightarrow> string"
  timedelta_str :: "rat \<Rightarrow> string"
  str_lower :: "string \<Rightarrow> string"
  str_title :: "string \<Rightarrow> string"
  list_str :: "(string \<times> string) list list \<Rightarrow> string"

section \<open>The host\<close>

record scpufreq =
  freq_current :: rat
  freq_min :: rat
  freq_max :: rat

record svmem =
  vm_total :: nat
  vm_available :: nat
  vm_percent :: rat

record sswap =
  sw_total :: nat
  sw_percent :: rat

record shwtemp =
  temp_label :: string
  temp_current :: rat
  temp_high :: "rat option"
  temp_critical :: "rat option"

record sdiskpart =
  part_device :: string
  part_mountpoint :: string
  part_fstype :: string

record sdiskusage =
  du_total :: nat
  du_used :: nat
  du_free :: nat

record snicaddr =
  addr_family :: string
  addr_address :: string
  addr_netmask :: "string option"

record snicstats =
  nic_isup :: bool
  nic_speed :: int

record completed_process =
  returncode :: int
  stdout :: string

text \<open>
  One field for each query of the source. A query that the source guards with a handler
  returns \<open>exn + value\<close>. \<open>cpu_freq\<close> is \<open>None\<close> where psutil returns \<^verbatim>\<open>None\<close>;
  \<open>getloadavg\<close> is \<open>None\<close> where \<^verbatim>\<open>hasattr(psutil, 'getloadavg')\<close> is false.
  \<open>addr_family\<close> is \<^verbatim>\<open>str(address.family)\<close>. The record is a snapshot: a query gives
  the same answer each time one collector asks.
\<close>

record host =
  platform_system :: string
  platform_node :: string
  platform_release :: string
  platform_version :: string
  platform_machine :: string
  platform_processor :: string
  platform_architecture :: string
  platform_python_version :: string
  cpu_count_physical :: "int option"
  cpu_count_logical :: "int option"
  cpu_freq :: "scpufreq option"
  cpu_percent :: rat
  getloadavg :: "(rat \<times> rat \<times> rat) option"
  virtual_memory :: svmem
  swap_memory :: sswap
  sensors_temperatures :: "exn + (string, shwtemp list) dict"
  disk_partitions :: "sdiskpart list"
  disk_usage :: "string \<Rightarrow> exn + sdiskusage"
  net_if_addrs :: "(string, snicaddr list) dict"
  net_if_stats :: "(string, snicstats) dict"
  wmic_bios :: "exn + completed_process"
  read_file :: "string \<Rightarrow> exn + string"
  clock_now :: rat
  boot_time :: rat

section \<open>Probe collectors\<close>

subsection \<open>\<^verbatim>\<open>get_system_info\<close>\<close>

definition get_system_info :: "host \<Rightarrow> (string, string) dict" where
  "get_system_info h =
     [(''System'', platform_system h),
      (''Node Name'', platform_node h),
      (''Release'', platform_release h),
      (''Version'', platform_version h),
      (''Machine'', platform_machine h),
      (''Processor'', platform_processor h),
      (''Architecture'', platform_architecture h),
      (''Python Version'', platform_python_version h)]"

subsection \<open>\<^verbatim>\<open>get_cpu_info\<close>\<close>

text \<open>The values of the CPU mapping: core counts are ints or \<^verbatim>\<open>None\<close>, the load average a float.\<close>

datatype pyval = PNone | PInt int | PFloat rat | PStr string

definition opt_int :: "int option \<Rightarrow> pyval" where
  "opt_int v = (case v of None \<Rightarrow> PNone | Some i \<Rightarrow> PInt i)"

definition get_cpu_info :: "host \<Rightarrow> (string, pyval) dict" where
  "get_cpu_info h =
     [(''Physical Cores'', opt_int (cpu_count_physical h)),
      (''Total Cores'', opt_int (cpu_count_logical h)),
      (''Max Frequency'',
         PStr (case cpu_freq h of
                 Some f \<Rightarrow> py_format_f 2 (Finite (freq_max f)) @ '' MHz''
               | None \<Rightarrow> ''N/A'')),
      (''Current Frequency'',
         PStr (case cpu_freq h of
                 Some f \<Rightarrow> py_format_f 2 (Finite (freq_current f)) @ '' MHz''
               | None \<Rightarrow> ''N/A'')),
      (''CPU Usage'', PStr (py_format_f 1 (Finite (cpu_percent h)) @ ''%'')),
      (''Load Average (1min)'',
         (case getloadavg h of Some (l1, l5, l15) \<Rightarrow> PFloat l1 | None \<Rightarrow> PStr ''N/A''))]"

subsection \<open>\<^verbatim>\<open>get_memory_info\<close>\<close>

text \<open>
  \<open>fmt_gb n\<close> is the expression \<^verbatim>\<open>f"{n / (1024**3):.2f} GB"\<close>, which the source
  writes out for each of the three memory sizes and the three disk sizes.
\<close>

definition fmt_gb :: "nat \<Rightarrow> exn + string" where
  "fmt_gb n =
     bind_exn (py_truediv (int n) (1024 ^ 3))
       (\<lambda>g. Inr (py_format_f 2 (Finite g) @ '' GB''))"

definition get_memory_info :: "host \<Rightarrow> exn + (string, string) dict" where
  "get_memory_info h =
     (let memory = virtual_memory h; swap = swap_memory h
      in bind_exn (fmt_gb (vm_total memory)) (\<lambda>total_ram.
         bind_exn (fmt_gb (vm_available memory)) (\<lambda>available_ram.
         bind_exn (fmt_gb (sw_total swap)) (\<lambda>total_swap.
           Inr [(''Total RAM'', total_ram),
                (''Available RAM'', available_ram),
                (''RAM Usage'', py_format_f 1 (Finite (vm_percent memory)) @ ''%''),
                (''Total Swap'', total_swap),
                (''Swap Usage'', py_format_f 1 (Finite (sw_percent swap)) @ ''%'')]))))"

subsection \<open>\<^verbatim>\<open>get_temperature_info\<close>\<close>

definition degrees_c :: string where
  "degrees_c = [char_of (0xC2 :: nat), char_of (0xB0 :: nat), CHR ''C'']"

record temp_data =
  td_label :: string
  td_current :: string
  td_high :: string
  td_critical :: string

text \<open>
  \<^verbatim>\<open>entry.label or 'N/A'\<close> and \<^verbatim>\<open>... if entry.high else "N/A"\<close> test truthiness:
  the empty string, \<^verbatim>\<open>None\<close> and the float zero are false.
\<close>

definition float_truthy :: "rat option \<Rightarrow> bool" where
  "float_truthy v = (case v of None \<Rightarrow> False | Some x \<Rightarrow> x \<noteq> 0)"

definition temp_threshold :: "rat option \<Rightarrow> string" where
  "temp_threshold v =
     (if float_truthy v then py_format_f 1 (Finite (the v)) @ degrees_c else ''N/A'')"

definition temp_entry :: "shwtemp \<Rightarrow> temp_data" where
  "temp_entry entry =
     \<lparr> td_label = (if temp_label entry \<noteq> [] then temp_label entry else ''N/A''),
       td_current = py_format_f 1 (Finite (temp_current entry)) @ degrees_c,
       td_high = temp_threshold (temp_high entry),
       td_critical = temp_threshold (temp_critical entry) \<rparr>"

text \<open>A value of the temperature mapping: the sentinel text or the readings of a group.\<close>

datatype temp_value = TStatus string | TReadings "temp_data list"

fun temp_groups ::
  "(string, shwtemp list) dict \<Rightarrow> (string, temp_value) dict \<Rightarrow> (string, temp_value) dict" where
  "temp_groups [] temp_info = temp_info"
| "temp_groups ((name, entries) # temps) temp_info =
     temp_groups temps (dict_set name (TReadings (map temp_entry entries)) temp_info)"

text \<open>The body of the \<^verbatim>\<open>try\<close> block.\<close>

definition temperature_try :: "host \<Rightarrow> exn + (string, temp_value) dict" where
  "temperature_try h =
     bind_exn (sensors_temperatures h) (\<lambda>temps.
       (let temp_info = temp_groups temps []
        in Inr (if temp_info \<noteq> [] then temp_info
                else [(''Status'', TStatus ''No temperature sensors detected'')])))"

definition get_temperature_info :: "host \<Rightarrow> (string, temp_value) dict" where
  "get_temperature_info h =
     (case temperature_try h of
        Inr temp_info \<Rightarrow> temp_info
      | Inl e \<Rightarrow> [(''Status'', TStatus ''Temperature monitoring not available'')])"

subsection \<open>\<^verbatim>\<open>get_disk_info\<close>\<close>

text \<open>
  \<open>usage_percent\<close> is \<^verbatim>\<open>(usage.used / usage.total) * 100\<close>; the division raises for a
  part of total size zero.
\<close>

definition usage_percent :: "sdiskusage \<Rightarrow> exn + pyfloat" where
  "usage_percent u =
     bind_exn (py_truediv (int (du_used u)) (int (du_total u))) (\<lambda>r. Inr (py_fmul r 100))"

text \<open>The body of the \<^verbatim>\<open>try\<close> block for one part: the entry stored under its device.\<close>

definition disk_entry :: "host \<Rightarrow> sdiskpart \<Rightarrow> exn + (string, string) dict" where
  "disk_entry h part =
     bind_exn (disk_usage h (part_mountpoint part)) (\<lambda>partition_usage.
     bind_exn (fmt_gb (du_total partition_usage)) (\<lambda>total_size.
     bind_exn (fmt_gb (du_used partition_usage)) (\<lambda>used.
     bind_exn (fmt_gb (du_free partition_usage)) (\<lambda>free.
     bind_exn (usage_percent partition_usage) (\<lambda>pct.
       Inr [(''Mountpoint'', part_mountpoint part),
            (''File System'', part_fstype part),
            (''Total Size'', total_size),
            (''Used'', used),
            (''Free'', free),
            (''Usage %'', py_format_f 1 pct @ ''%'')])))))"

definition permission_denied :: "(string, string) dict" where
  "permission_denied = [(''Status'', ''Permission denied'')]"

fun disk_loop ::
  "host \<Rightarrow> sdiskpart list \<Rightarrow> (string, (string, string) dict) dict
     \<Rightarrow> exn + (string, (string, string) dict) dict" where
  "disk_loop h [] disk_info = Inr disk_info"
| "disk_loop h (part # parts) disk_info =
     (case disk_entry h part of
        Inr entry \<Rightarrow> disk_loop h parts (dict_set (part_device part) entry disk_info)
      | Inl e \<Rightarrow>
          if exn_class e = PermissionError
          then disk_loop h parts
                 (dict_set (part_device part) permission_denied disk_info)
          else Inl e)"

definition get_disk_info :: "host \<Rightarrow> exn + (string, (string, string) dict) dict" where
  "get_disk_info h = disk_loop h (disk_partitions h) []"

subsection \<open>\<^verbatim>\<open>get_network_info\<close>\<close>

record net_address =
  na_family :: string
  na_address :: string
  na_netmask :: "string option"

record net_entry =
  ne_addresses :: "net_address list"
  ne_is_up :: bool
  ne_speed :: string

definition net_address_of :: "snicaddr \<Rightarrow> net_address" where
  "net_address_of a =
     \<lparr> na_family = addr_family a, na_address = addr_address a, na_netmask = addr_netmask a \<rparr>"

definition net_entry_of ::
  "(string, snicstats) dict \<Rightarrow> string \<Rightarrow> snicaddr list \<Rightarrow> net_entry" where
  "net_entry_of stats interface_name interface_addresses =
     \<lparr> ne_addresses = map net_address_of interface_addresses,
       ne_is_up = (case map_of stats interface_name of Some s \<Rightarrow> nic_isup s | None \<Rightarrow> False),
       ne_speed = (case map_of stats interface_name of
                     Some s \<Rightarrow> if 0 < nic_speed s then str_int (nic_speed s) @ '' Mbps''
                               else ''N/A''
                   | None \<Rightarrow> ''N/A'') \<rparr>"

fun network_loop ::
  "(string, snicstats) dict \<Rightarrow> (string, snicaddr list) dict \<Rightarrow> (string, net_entry) dict
     \<Rightarrow> (string, net_entry) dict" where
  "network_loop stats [] network_info = network_info"
| "network_loop stats ((interface_name, interface_addresses) # interfaces) network_info =
     network_loop stats interfaces
       (dict_set interface_name (net_entry_of stats interface_name interface_addresses)
          network_info)"

definition get_network_info :: "host \<Rightarrow> (string, net_entry) dict" where
  "get_network_info h = network_loop (net_if_stats h) (net_if_addrs h) []"

subsection \<open>\<^verbatim>\<open>get_bios_info\<close>\<close>

definition bios_line :: "string \<Rightarrow> (string, string) dict \<Rightarrow> (string, string) dict" where
  "bios_line line bios_info =
     (if CHR ''='' \<in> set line \<and> py_strip line \<noteq> []
      then (case py_split_once CHR ''='' line of
              (key, val) \<Rightarrow>
                if py_strip val \<noteq> [] then dict_set key (py_strip val) bios_info
                else bios_info)
      else bios_info)"

definition newline :: char where
  "newline = char_of (10 :: nat)"

text \<open>One guarded read of the Linux branch: the key is set when the file can be read.\<close>

definition bios_read ::
  "host \<Rightarrow> string \<Rightarrow> string \<Rightarrow> (string, string) dict \<Rightarrow> (string, string) dict" where
  "bios_read h path key bios_info =
     (case read_file h path of
        Inr content \<Rightarrow> dict_set key (py_strip content) bios_info
      | Inl e \<Rightarrow> bios_info)"

text \<open>
  The outer \<^verbatim>\<open>try\<close> block: the mapping built so far, and the exception if one was
  raised. Only the call of the external tool can raise there.
\<close>

definition bios_try :: "host \<Rightarrow> (string, string) dict \<times> exn option" where
  "bios_try h =
     (if platform_system h = ''Windows''
      then (case wmic_bios h of
              Inl e \<Rightarrow> ([], Some e)
            | Inr result \<Rightarrow>
                if returncode result = 0
                then (fold bios_line (py_split newline (stdout result)) [], None)
                else ([], None))
      else if platform_system h = ''Linux''
      then (bios_read h ''/sys/class/dmi/id/board_vendor'' ''Board Vendor''
             (bios_read h ''/sys/class/dmi/id/board_name'' ''Board Name''
               (bios_read h ''/sys/class/dmi/id/bios_version'' ''BIOS Version'' [])), None)
      else ([], None))"

definition get_bios_info :: "host \<Rightarrow> (string, string) dict" where
  "get_bios_info h =
     (let bios_info =
            (case bios_try h of
               (bios_info, None) \<Rightarrow> bios_info
             | (bios_info, Some e) \<Rightarrow>
                 dict_set ''Error'' (''Could not retrieve BIOS info: '' @ exn_message e) bios_info)
      in if bios_info \<noteq> [] then bios_info
         else [(''Status'', ''BIOS information not accessible'')])"

section \<open>Health evaluator\<close>

text \<open>The body of the \<^verbatim>\<open>try\<close> block for one part: the warning text, if any.\<close>

definition health_disk_try :: "host \<Rightarrow> sdiskpart \<Rightarrow> exn + string option" where
  "health_disk_try h part =
     bind_exn (disk_usage h (part_mountpoint part)) (\<lambda>usage.
     bind_exn (usage_percent usage) (\<lambda>pct.
       Inr (if py_gt pct 90
            then Some (''Low disk space: '' @ py_format_f 1 pct @ ''% used'')
            else None)))"

definition disk_warning_key :: "string \<Rightarrow> string" where
  "disk_warning_key dev = ''disk_warning_'' @ dev"

fun health_disk_loop ::
  "host \<Rightarrow> sdiskpart list \<Rightarrow> (string, string) dict \<Rightarrow> exn + (string, string) dict" where
  "health_disk_loop h [] health_status = Inr health_status"
| "health_disk_loop h (part # parts) health_status =
     (case health_disk_try h part of
        Inr (Some warning) \<Rightarrow>
          health_disk_loop h parts
            (dict_set (disk_warning_key (part_device part)) warning health_status)
      | Inr None \<Rightarrow> health_disk_loop h parts health_status
      | Inl e \<Rightarrow>
          if exn_class e = PermissionError then health_disk_loop h parts health_status
          else Inl e)"

definition check_system_health :: "pyrt \<Rightarrow> host \<Rightarrow> exn + (string, string) dict" where
  "check_system_health rt h =
     (let health_status =
            [(''timestamp'', strftime rt (clock_now h)),
             (''uptime'', timedelta_str rt (clock_now h - boot_time h)),
             (''boot_time'', strftime rt (boot_time h))];
          cpu_usage = cpu_percent h;
          health_status =
            (if 80 < cpu_usage
             then dict_set ''cpu_warning''
                    (''High CPU usage: '' @ float_str rt cpu_usage @ ''%'') health_status
             else health_status);
          memory = virtual_memory h;
          health_status =
            (if 85 < vm_percent memory
             then dict_set ''memory_warning''
                    (''High memory usage: '' @ float_str rt (vm_percent memory) @ ''%'')
                    health_status
             else health_status)
      in health_disk_loop h (disk_partitions h) health_status)"

section \<open>Report renderer\<close>

text \<open>
  The output is the list of the strings passed to \<^verbatim>\<open>print\<close>, one for each call. A
  part of the report is the lines it prints and the exception that ends it, if any.
  \<open>main\<close> reads the host once for each collector: \<open>hs\<close> gives the snapshot that each
  phase of the run sees.
\<close>

type_synonym report = "string list \<times> exn option"

datatype phase =
    AtBanner | AtSystem | AtBios | AtCpu | AtMemory | AtTemperature | AtDisk | AtNetwork
  | AtHealth

fun run_seq :: "report list \<Rightarrow> report" where
  "run_seq [] = ([], None)"
| "run_seq ((ls, Some e) # rest) = (ls, Some e)"
| "run_seq ((ls, None) # rest) = (case run_seq rest of (ls', r) \<Rightarrow> (ls @ ls', r))"

definition rule60 :: string where
  "rule60 = replicate 60 CHR ''=''"

definition rule30 :: string where
  "rule30 = replicate 30 CHR ''-''"

definition section_headers :: "string list" where
  "section_headers =
     [''SYSTEM INFORMATION:'', ''BIOS/MOTHERBOARD INFORMATION:'', ''CPU STATUS:'',
      ''MEMORY STATUS:'', ''TEMPERATURE SENSORS:'', ''DISK STATUS:'',
      ''NETWORK INTERFACES:'', ''SYSTEM HEALTH CHECK:'']"

definition banner :: "pyrt \<Rightarrow> host \<Rightarrow> report" where
  "banner rt h =
     ([rule60, ''MOTHERBOARD & SYSTEM STATUS CHECK'', rule60,
       ''Scan Time: '' @ strftime rt (clock_now h), []], None)"

definition render_items :: "(string, string) dict \<Rightarrow> string list" where
  "render_items d = map (\<lambda>(key, val). key @ '': '' @ val) d"

definition section_system :: "host \<Rightarrow> report" where
  "section_system h =
     ([''SYSTEM INFORMATION:'', rule30] @ render_items (get_system_info h) @ [[]], None)"

definition section_bios :: "host \<Rightarrow> report" where
  "section_bios h =
     ([''BIOS/MOTHERBOARD INFORMATION:'', rule30] @ render_items (get_bios_info h) @ [[]],
      None)"

fun pyval_str :: "pyrt \<Rightarrow> pyval \<Rightarrow> string" where
  "pyval_str rt PNone = ''None''"
| "pyval_str rt (PInt i) = str_int i"
| "pyval_str rt (PFloat x) = float_str rt x"
| "pyval_str rt (PStr s) = s"

definition section_cpu :: "pyrt \<Rightarrow> host \<Rightarrow> report" where
  "section_cpu rt h =
     ([''CPU STATUS:'', rule30]
      @ map (\<lambda>(key, val). key @ '': '' @ pyval_str rt val) (get_cpu_info h) @ [[]], None)"

definition section_memory :: "host \<Rightarrow> report" where
  "section_memory h =
     (case get_memory_info h of
        Inl e \<Rightarrow> ([''MEMORY STATUS:'', rule30], Some e)
      | Inr memory_info \<Rightarrow>
          ([''MEMORY STATUS:'', rule30] @ render_items memory_info @ [[]], None))"

definition reading_line :: "temp_data \<Rightarrow> string" where
  "reading_line reading =
     ''  '' @ td_label reading @ '': '' @ td_current reading
     @ '' (High: '' @ td_high reading @ '', Critical: '' @ td_critical reading @ '')''"

definition reading_items :: "temp_data \<Rightarrow> (string, string) dict" where
  "reading_items reading =
     [(''label'', td_label reading), (''current'', td_current reading),
      (''high'', td_high reading), (''critical'', td_critical reading)]"

text \<open>
  One group of the \<^verbatim>\<open>else\<close> branch. Iterating over the readings of a value that is a
  text would index a character with \<^verbatim>\<open>'label'\<close>, a \<^verbatim>\<open>TypeError\<close>.
\<close>

fun render_temp_group :: "string \<times> temp_value \<Rightarrow> report" where
  "render_temp_group (sensor_name, TReadings readings) =
     ((sensor_name @ '':'') # map reading_line readings, None)"
| "render_temp_group (sensor_name, TStatus s) =
     ([sensor_name @ '':''],
      if s = [] then None else Some (Exn TypeError ''string indices must be integers''))"

definition render_temperature :: "pyrt \<Rightarrow> (string, temp_value) dict \<Rightarrow> report" where
  "render_temperature rt temp_info =
     (case map_of temp_info ''Status'' of
        Some (TStatus s) \<Rightarrow> ([s], None)
      | Some (TReadings readings) \<Rightarrow> ([list_str rt (map reading_items readings)], None)
      | None \<Rightarrow> run_seq (map render_temp_group temp_info))"

definition section_temperature :: "pyrt \<Rightarrow> host \<Rightarrow> report" where
  "section_temperature rt h =
     run_seq [([''TEMPERATURE SENSORS:'', rule30], None),
              render_temperature rt (get_temperature_info h),
              ([[]], None)]"

definition render_disk :: "string \<times> (string, string) dict \<Rightarrow> string list" where
  "render_disk = (\<lambda>(dev, info).
     (dev @ '':'') # map (\<lambda>(key, val). ''  '' @ key @ '': '' @ val) info @ [[]])"

definition section_disk :: "host \<Rightarrow> report" where
  "section_disk h =
     (case get_disk_info h of
        Inl e \<Rightarrow> ([''DISK STATUS:'', rule30], Some e)
      | Inr disk_info \<Rightarrow>
          ([''DISK STATUS:'', rule30] @ concat (map render_disk disk_info), None))"

definition render_interface :: "string \<times> net_entry \<Rightarrow> string list" where
  "render_interface = (\<lambda>(interface, info).
     [interface @ '':'',
      ''  Status: '' @ (if ne_is_up info then ''UP'' else ''DOWN''),
      ''  Speed: '' @ ne_speed info]
     @ map (\<lambda>addr. ''  '' @ na_family addr @ '': '' @ na_address addr)
         (take 2 (ne_addresses info))
     @ [[]])"

definition section_network :: "host \<Rightarrow> report" where
  "section_network h =
     ([''NETWORK INTERFACES:'', rule30] @ concat (map render_interface (get_network_info h)),
      None)"

definition warning_glyph :: string where
  "warning_glyph = map char_of [0xE2, 0x9A, 0xA0, 0xEF, 0xB8, 0x8F :: nat]"

definition replace_underscores :: "string \<Rightarrow> string" where
  "replace_underscores key = map (\<lambda>c. if c = CHR ''_'' then CHR '' '' else c) key"

definition render_health :: "pyrt \<Rightarrow> string \<times> string \<Rightarrow> string" where
  "render_health rt = (\<lambda>(key, val).
     if str_contains ''warning'' (str_lower rt key)
     then warning_glyph @ ''  '' @ str_title rt (replace_underscores key) @ '': '' @ val
     else str_title rt (replace_underscores key) @ '': '' @ val)"

definition section_health :: "pyrt \<Rightarrow> host \<Rightarrow> report" where
  "section_health rt h =
     (case check_system_health rt h of
        Inl e \<Rightarrow> ([''SYSTEM HEALTH CHECK:'', rule30], Some e)
      | Inr health \<Rightarrow>
          ([''SYSTEM HEALTH CHECK:'', rule30] @ map (render_health rt) health @ [[]], None))"

definition closing :: report where
  "closing = ([rule60, ''SCAN COMPLETE'', rule60], None)"

definition main :: "pyrt \<Rightarrow> (phase \<Rightarrow> host) \<Rightarrow> report" where
  "main rt hs =
     run_seq [banner rt (hs AtBanner),
              section_system (hs AtSystem),
              section_bios (hs AtBios),
              section_cpu rt (hs AtCpu),
              section_memory (hs AtMemory),
              section_temperature rt (hs AtTemperature),
              section_disk (hs AtDisk),
              section_network (hs AtNetwork),
              section_health rt (hs AtHealth),
              closing]"

text \<open>The \<^verbatim>\<open>__main__\<close> block: the two handlers around \<open>main\<close>.\<close>

definition program :: "pyrt \<Rightarrow> (phase \<Rightarrow> host) \<Rightarrow> string list" where
  "program rt hs =
     (case main rt hs of
        (out, None) \<Rightarrow> out
      | (out, Some e) \<Rightarrow>
          if exn_class e = ImportError
          then out @ [''Missing required module: '' @ exn_message e,
                      ''Install with: pip install psutil'']
          else out @ [''Error running system check: '' @ exn_message e,
                      ''Make sure you're running with appropriate permissions.''])"

section \<open>The specification's wording\<close>

text \<open>
  Definitions that follow the words of the specification, to be compared with the
  functions above.
\<close>

definition result_of :: "exn + 'a \<Rightarrow> 'a option" where
  "result_of r = (case r of Inl e \<Rightarrow> None | Inr v \<Rightarrow> Some v)"

text \<open>Bytes to gigabytes: divide by \<open>1024\<^sup>3\<close>, two decimal places, the suffix \<^verbatim>\<open> GB\<close>.\<close>

definition spec_bytes_to_gb :: "nat \<Rightarrow> string" where
  "spec_bytes_to_gb n = format_fixed 2 (of_nat n / 1024 ^ 3) @ '' GB''"

text \<open>
  \<^verbatim>\<open>round(x, 1)\<close> of a value that is not negative, written with one decimal: the nearest
  number of tenths, ties to even.
\<close>

definition spec_round1 :: "rat \<Rightarrow> string" where
  "spec_round1 x =
     (let tenths = nat (round_half_even (x * 10))
      in str_nat (tenths div 10) @ ''.'' @ str_nat (tenths mod 10))"

text \<open>\<^verbatim>\<open>Used / Total * 100\<close> in binary64 arithmetic.\<close>

definition spec_used_percent :: "sdiskusage \<Rightarrow> rat" where
  "spec_used_percent u =
     round_double (round_double (of_nat (du_used u) / of_nat (du_total u)) * 100)"

text \<open>
  A usage whose sizes are those of a real partition: the total is not zero and no size
  reaches the range where binary64 overflows.
\<close>

definition usage_in_range :: "sdiskusage \<Rightarrow> bool" where
  "usage_in_range u =
     (0 < du_total u \<and> du_total u < 2 ^ 1000 \<and> du_used u < 2 ^ 1000 \<and> du_free u < 2 ^ 1000)"

text \<open>The usage query of a partition succeeds or fails with a permission error.\<close>

definition usage_readable_or_denied :: "host \<Rightarrow> sdiskpart \<Rightarrow> bool" where
  "usage_readable_or_denied h p =
     (case disk_usage h (part_mountpoint p) of
        Inl e \<Rightarrow> exn_class e = PermissionError
      | Inr u \<Rightarrow> usage_in_range u)"

text \<open>
  The entry of a partition in the disk mapping: the permission-denied sentinel when the
  usage query fails, otherwise mountpoint, file system, the three sizes in gigabytes and
  the used percentage rounded to one decimal.
\<close>

definition spec_gb :: "nat \<Rightarrow> string" where
  "spec_gb n = format_fixed 2 (round_double (of_nat n / 1024 ^ 3)) @ '' GB''"

definition spec_disk_entry :: "host \<Rightarrow> sdiskpart \<Rightarrow> (string, string) dict" where
  "spec_disk_entry h p =
     (case disk_usage h (part_mountpoint p) of
        Inl e \<Rightarrow> [(''Status'', ''Permission denied'')]
      | Inr u \<Rightarrow>
          [(''Mountpoint'', part_mountpoint p),
           (''File System'', part_fstype p),
           (''Total Size'', spec_gb (du_total u)),
           (''Used'', spec_gb (du_used u)),
           (''Free'', spec_gb (du_free u)),
           (''Usage %'', spec_round1 (spec_used_percent u) @ ''%'')])"

text \<open>A readable partition whose computed percentage exceeds 90.\<close>

definition over_90 :: "host \<Rightarrow> sdiskpart \<Rightarrow> bool" where
  "over_90 h p =
     (case disk_usage h (part_mountpoint p) of
        Inl e \<Rightarrow> False
      | Inr u \<Rightarrow> (case usage_percent u of Inl e \<Rightarrow> False | Inr pct \<Rightarrow> py_gt pct 90))"

text \<open>The labels that the collectors with a fixed mapping write.\<close>

definition system_labels :: "string list" where
  "system_labels =
     [''System'', ''Node Name'', ''Release'', ''Version'', ''Machine'', ''Processor'',
      ''Architecture'', ''Python Version'']"

definition cpu_labels :: "string list" where
  "cpu_labels =
     [''Physical Cores'', ''Total Cores'', ''Max Frequency'', ''Current Frequency'',
      ''CPU Usage'', ''Load Average (1min)'']"

definition memory_labels :: "string list" where
  "memory_labels = [''Total RAM'', ''Available RAM'', ''RAM Usage'', ''Total Swap'', ''Swap Usage'']"

definition disk_labels :: "string list" where
  "disk_labels = [''Mountpoint'', ''File System'', ''Total Size'', ''Used'', ''Free'', ''Usage %'']"

text \<open>A name which, printed with a colon after it, reads as a section header.\<close>

definition header_name :: "string \<Rightarrow> bool" where
  "header_name n = (n @ '':'' \<in> set section_headers)"

definition is_header :: "string \<Rightarrow> bool" where
  "is_header l = (l \<in> set section_headers)"

fun colon_space :: "string \<Rightarrow> bool" where
  "colon_space (a # b # s) = ((a = CHR '':'' \<and> b = CHR '' '') \<or> colon_space (b # s))"
| "colon_space s = False"

section \<open>Example hosts\<close>

text \<open>
  A Linux machine with three partitions (one of them unreadable), three network
  interfaces (one without statistics) and no readable board name. Its percentages and
  sizes are binary fractions, so that no rounding takes part in the examples.
\<close>

definition example_usage :: "string \<Rightarrow> exn + sdiskusage" where
  "example_usage mp =
     (if mp = ''/''
      then Inr \<lparr> du_total = 68719476736, du_used = 66571993088, du_free = 2147483648 \<rparr>
      else if mp = ''/home''
      then Inr \<lparr> du_total = 137438953472, du_used = 68719476736, du_free = 68719476736 \<rparr>
      else if mp = ''/root''
      then Inl (Exn PermissionError ''[Errno 13] Permission denied'')
      else Inl (Exn FileNotFoundError ''[Errno 2] No such file or directory''))"

definition example_files :: "string \<Rightarrow> exn + string" where
  "example_files path =
     (if path = ''/sys/class/dmi/id/bios_version'' then Inr (''1.2.3'' @ [newline])
      else if path = ''/sys/class/dmi/id/board_vendor'' then Inr (''ACME'' @ [newline])
      else Inl (Exn FileNotFoundError ''[Errno 2] No such file or directory''))"

definition part_root :: sdiskpart where
  "part_root =
     \<lparr> part_device = ''/dev/sda1'', part_mountpoint = ''/'', part_fstype = ''ext4'' \<rparr>"

definition part_home :: sdiskpart where
  "part_home =
     \<lparr> part_device = ''/dev/sda2'', part_mountpoint = ''/home'', part_fstype = ''ext4'' \<rparr>"

definition part_denied :: sdiskpart where
  "part_denied =
     \<lparr> part_device = ''/dev/sda3'', part_mountpoint = ''/root'', part_fstype = ''ext4'' \<rparr>"

definition part_home_same_device :: sdiskpart where
  "part_home_same_device =
     \<lparr> part_device = ''/dev/sda1'', part_mountpoint = ''/home'', part_fstype = ''ext4'' \<rparr>"

definition part_vanished :: sdiskpart where
  "part_vanished =
     \<lparr> part_device = ''/dev/sdb1'', part_mountpoint = ''/mnt/usb'', part_fstype = ''vfat'' \<rparr>"

definition linux_host :: host where
  "linux_host =
     \<lparr> platform_system = ''Linux'',
       platform_node = ''host1'',
       platform_release = ''6.1.0'',
       platform_version = ''#1 SMP'',
       platform_machine = ''x86_64'',
       platform_processor = ''x86_64'',
       platform_architecture = ''64bit'',
       platform_python_version = ''3.11.2'',
       cpu_count_physical = Some 4,
       cpu_count_logical = Some 8,
       cpu_freq = Some \<lparr> freq_current = 2400, freq_min = 800, freq_max = 3600 \<rparr>,
       cpu_percent = 81,
       getloadavg = Some (1 / 2, 1 / 4, 1 / 8),
       virtual_memory =
         \<lparr> vm_total = 17179869184, vm_available = 8589934592, vm_percent = 50 \<rparr>,
       swap_memory = \<lparr> sw_total = 0, sw_percent = 0 \<rparr>,
       sensors_temperatures =
         Inr [(''coretemp'',
               [\<lparr> temp_label = ''Core 0'', temp_current = 45, temp_high = Some 80,
                   temp_critical = Some 100 \<rparr>,
                \<lparr> temp_label = '''', temp_current = 81 / 2, temp_high = None,
                   temp_critical = None \<rparr>])],
       disk_partitions = [part_root, part_home, part_denied],
       disk_usage = example_usage,
       net_if_addrs =
         [(''lo'',
           [\<lparr> addr_family = ''AddressFamily.AF_INET'', addr_address = ''127.0.0.1'',
               addr_netmask = Some ''255.0.0.0'' \<rparr>]),
          (''eth0'',
           [\<lparr> addr_family = ''AddressFamily.AF_INET'', addr_address = ''10.0.0.5'',
               addr_netmask = Some ''255.255.255.0'' \<rparr>,
            \<lparr> addr_family = ''AddressFamily.AF_INET6'', addr_address = ''fe80::1'',
               addr_netmask = Some ''ffff:ffff:ffff:ffff::'' \<rparr>,
            \<lparr> addr_family = ''AddressFamily.AF_PACKET'', addr_address = ''00:11:22:33:44:55'',
               addr_netmask = None \<rparr>]),
          (''tun0'',
           [\<lparr> addr_family = ''AddressFamily.AF_INET'', addr_address = ''10.8.0.2'',
               addr_netmask = None \<rparr>])],
       net_if_stats =
         [(''lo'', \<lparr> nic_isup = True, nic_speed = 0 \<rparr>),
          (''eth0'', \<lparr> nic_isup = True, nic_speed = 1000 \<rparr>)],
       wmic_bios = Inl (Exn FileNotFoundError ''[Errno 2] No such file or directory: 'wmic' ''),
       read_file = example_files,
       clock_now = 1700000000,
       boot_time = 1699900000 \<rparr>"

text \<open>
  A runtime for the examples. Its functions stand for builtins whose results no property
  depends on; each returns a fixed text.
\<close>

definition example_runtime :: pyrt where
  "example_runtime =
     \<lparr> float_str = (\<lambda>x. ''<float>''),
       strftime = (\<lambda>t. ''<time>''),
       timedelta_str = (\<lambda>d. ''<timedelta>''),
       str_lower = (\<lambda>s. s),
       str_title = (\<lambda>s. s),
       list_str = (\<lambda>l. ''<list>'') \<rparr>"

text \<open>The same device mounted twice, with two different usages.\<close>

definition twice_mounted_host :: host where
  "twice_mounted_host = linux_host \<lparr> disk_partitions := [part_root, part_home_same_device] \<rparr>"

text \<open>A partition whose mountpoint has vanished: its usage query raises \<^verbatim>\<open>FileNotFoundError\<close>.\<close>

definition vanished_mount_host :: host where
  "vanished_mount_host = linux_host \<lparr> disk_partitions := [part_root, part_vanished] \<rparr>"

text \<open>Hosts without temperature sensors, and a sensor that reports thresholds of zero.\<close>

definition no_sensor_support_host :: host where
  "no_sensor_support_host =
     linux_host \<lparr> sensors_temperatures :=
       Inl (Exn AttributeError ''module 'psutil' has no attribute 'sensors_temperatures' '') \<rparr>"

definition no_sensors_host :: host where
  "no_sensors_host = linux_host \<lparr> sensors_temperatures := Inr [] \<rparr>"

definition zero_threshold_sensor :: shwtemp where
  "zero_threshold_sensor =
     \<lparr> temp_label = ''temp1'', temp_current = 35, temp_high = Some 0, temp_critical = Some 0 \<rparr>"

text \<open>A platform that is neither Windows nor Linux, and a Windows host without the tool.\<close>

definition darwin_host :: host where
  "darwin_host = linux_host \<lparr> platform_system := ''Darwin'' \<rparr>"

definition windows_host :: host where
  "windows_host = linux_host \<lparr> platform_system := ''Windows'' \<rparr>"

section \<open>Properties\<close>

subsection \<open>Evaluating the model\<close>

lemma digit_char_simps:
  "digit_char 0 = CHR ''0''" "digit_char (Suc 0) = CHR ''1''" "digit_char 2 = CHR ''2''"
  "digit_char 3 = CHR ''3''" "digit_char 4 = CHR ''4''" "digit_char 5 = CHR ''5''"
  "digit_char 6 = CHR ''6''" "digit_char 7 = CHR ''7''" "digit_char 8 = CHR ''8''"
  "digit_char 9 = CHR ''9''"
  by code_simp+

lemma str_nat_numeral:
  "str_nat (numeral k) =
     (if numeral k < (10::nat) then [digit_char (numeral k)]
      else str_nat (numeral k div 10) @ [digit_char (numeral k mod 10)])"
  by (rule str_nat.simps)

lemma str_nat_0_1: "str_nat 0 = ''0''" "str_nat (Suc 0) = ''1''"
  by (subst str_nat.simps, simp add: digit_char_simps)+

lemma bit_length_numeral: "bit_length (numeral k) = Suc (bit_length (numeral k div 2))"
  by (subst bit_length.simps) simp

lemma bit_length_0_1: "bit_length 0 = 0" "bit_length (Suc 0) = 1"
  by (subst bit_length.simps, simp add: bit_length.simps [of 0])+

lemma floor_rat_numeral: "\<lfloor>numeral a / numeral b :: rat\<rfloor> = numeral a div numeral b"
  using floor_divide_of_int_eq [of "numeral a" "numeral b", where ?'a = rat] by simp

lemma ceiling_rat_numeral:
  "\<lceil>numeral a / numeral b :: rat\<rceil> = - (- numeral a div numeral b)"
  using ceiling_divide_eq_div [of "numeral a" "numeral b", where ?'a = rat] by simp

lemmas eval_text = digit_char_simps str_nat_numeral str_nat_0_1 floor_rat_numeral
  str_int_def format_fixed_def zero_pad_def round_half_even_def Let_def

lemmas eval_float = bit_length_numeral bit_length_0_1 floor_rat_numeral ceiling_rat_numeral
  round_half_even_def round_double_def floor_log2_def pow2_def py_truediv_def py_fmul_def
  double_max_bound_def bind_exn_def Let_def

lemmas eval_host = linux_host_def part_root_def part_home_def part_denied_def
  part_home_same_device_def part_vanished_def example_usage_def example_files_def
  twice_mounted_host_def vanished_mount_host_def

subsection \<open>Rounding to binary64\<close>

lemma bit_length_bounds: "0 < n \<Longrightarrow> 2 ^ (bit_length n - 1) \<le> n \<and> n < 2 ^ bit_length n"
proof (induction n rule: bit_length.induct)
  case (1 n)
  have bl: "bit_length n = Suc (bit_length (n div 2))"
    using 1(2) by (subst bit_length.simps) simp
  show ?case
  proof (cases "n div 2 = 0")
    case True
    with 1(2) have "n = 1" by linarith
    moreover have "bit_length (Suc 0) = Suc 0"
      by (simp add: bit_length.simps [of "Suc 0"] bit_length.simps [of 0])
    ultimately show ?thesis by simp
  next
    case False
    then have pos: "0 < n div 2" by simp
    with 1(1) 1(2) have ih1: "2 ^ (bit_length (n div 2) - 1) \<le> n div 2"
      and ih2: "n div 2 < 2 ^ bit_length (n div 2)"
      by auto
    have "bit_length (n div 2) = Suc (bit_length (n div 2 div 2))"
      using pos by (subst bit_length.simps) simp
    then have step: "(2::nat) ^ bit_length (n div 2) = 2 * 2 ^ (bit_length (n div 2) - 1)"
      by simp
    have "2 * 2 ^ (bit_length (n div 2) - 1) \<le> n" using ih1 by linarith
    moreover have "n < 2 * 2 ^ bit_length (n div 2)" using ih2 by linarith
    ultimately show ?thesis using bl step by simp
  qed
qed

lemma pow2_powi: "pow2 e = 2 powi e"
  by (simp add: pow2_def power_int_def power_inverse inverse_eq_divide power_one_over)

lemma pow2_pos: "0 < pow2 e"
  by (simp add: pow2_def)

lemma pow2_mono: "a \<le> b \<Longrightarrow> pow2 a \<le> pow2 b"
  by (simp add: pow2_powi power_int_increasing)

lemma pow2_add: "pow2 (a + b) = pow2 a * pow2 b"
  by (simp add: pow2_powi power_int_add)

lemma pow2_nat: "pow2 (int k) = 2 ^ k"
  by (simp add: pow2_def)

lemma pow2_neg_nat: "pow2 (- int k) = 1 / 2 ^ k"
  by (simp add: pow2_powi power_int_minus_divide)

lemma floor_log2_lower:
  assumes "0 < q"
  shows "pow2 (floor_log2 q) \<le> q"
proof (cases "1 \<le> q")
  case True
  define m where "m = nat \<lfloor>q\<rfloor>"
  from True have fl: "1 \<le> \<lfloor>q\<rfloor>" by simp
  then have m: "0 < m" by (simp add: m_def)
  then have "0 < bit_length m" by (subst bit_length.simps) simp
  then have "floor_log2 q = int (bit_length m - 1)"
    using True by (simp add: floor_log2_def m_def)
  then have "pow2 (floor_log2 q) = 2 ^ (bit_length m - 1)"
    by (simp add: pow2_nat)
  also have "\<dots> \<le> rat_of_nat m"
    using bit_length_bounds [OF m] by (metis of_nat_le_iff of_nat_numeral of_nat_power)
  also have "\<dots> = of_int \<lfloor>q\<rfloor>" using fl by (simp add: m_def)
  also have "\<dots> \<le> q" by simp
  finally show ?thesis .
next
  case False
  define c where "c = \<lceil>1 / q\<rceil>"
  define m where "m = nat (c - 1)"
  from False assms have "1 < 1 / q" by simp
  then have c2: "2 \<le> c" unfolding c_def by linarith
  then have m: "0 < m" by (simp add: m_def)
  have "m < 2 ^ bit_length m" using bit_length_bounds [OF m] by simp
  then have "c - 1 < 2 ^ bit_length m" using c2 by (simp add: m_def nat_less_iff)
  then have "c \<le> 2 ^ bit_length m" by simp
  then have "rat_of_int c \<le> 2 ^ bit_length m"
    by (metis of_int_le_iff of_int_numeral of_int_power)
  moreover have "1 / q \<le> of_int c" unfolding c_def by simp
  ultimately have "1 / q \<le> 2 ^ bit_length m" by linarith
  then have "1 / 2 ^ bit_length m \<le> q"
    using assms by (simp add: field_simps)
  moreover have "floor_log2 q = - int (bit_length m)"
    using False by (simp add: floor_log2_def m_def c_def)
  ultimately show ?thesis by (simp add: pow2_neg_nat)
qed

lemma floor_log2_less:
  assumes "0 < q" and "q < pow2 k"
  shows "floor_log2 q < k"
proof (rule ccontr)
  assume "\<not> floor_log2 q < k"
  then have "pow2 k \<le> pow2 (floor_log2 q)" by (simp add: pow2_mono)
  with floor_log2_lower [OF assms(1)] assms(2) show False by linarith
qed

lemma round_half_even_of_int: "round_half_even (of_int m) = m"
  by (simp add: round_half_even_def)

lemma round_half_even_bounds:
  "x - 1 / 2 \<le> of_int (round_half_even x) \<and> of_int (round_half_even x) \<le> x + 1 / 2"
proof -
  have "of_int \<lfloor>x\<rfloor> \<le> x" "x < of_int \<lfloor>x\<rfloor> + 1" by linarith+
  then show ?thesis by (auto simp: round_half_even_def Let_def) linarith+
qed

lemma round_half_even_nonneg: "0 \<le> x \<Longrightarrow> 0 \<le> round_half_even x"
  by (auto simp: round_half_even_def Let_def)

text \<open>A value with at most 53 significant bits is its own rounding.\<close>

lemma round_double_exact:
  assumes "\<bar>m\<bar> < 2 ^ 53" and "- 1074 \<le> k"
  shows "round_double (of_int m * pow2 k) = of_int m * pow2 k"
proof (cases "m = 0")
  case True
  then show ?thesis by (simp add: round_double_def)
next
  case False
  define q where "q = rat_of_int m * pow2 k"
  define e where "e = max (floor_log2 \<bar>q\<bar> - 52) (- 1074)"
  have q0: "q \<noteq> 0" using False pow2_pos [of k] by (simp add: q_def)
  have absq: "\<bar>q\<bar> = of_int \<bar>m\<bar> * pow2 k"
    using pow2_pos [of k] by (simp add: q_def abs_mult)
  have "rat_of_int \<bar>m\<bar> < 2 ^ 53"
    using assms(1) by (metis of_int_less_iff of_int_numeral of_int_power)
  then have "\<bar>q\<bar> < 2 ^ 53 * pow2 k"
    unfolding absq using pow2_pos [of k] by (simp add: mult_strict_right_mono)
  also have "\<dots> = pow2 53 * pow2 k" by (simp add: pow2_def)
  also have "\<dots> = pow2 (53 + k)" by (simp only: pow2_add)
  finally have "floor_log2 \<bar>q\<bar> < 53 + k"
    using floor_log2_less [of "\<bar>q\<bar>" "53 + k"] q0 by simp
  with assms(2) have ek: "e \<le> k" by (simp add: e_def)
  then have "pow2 k = pow2 (k - e) * pow2 e"
    using pow2_add [of "k - e" e] by simp
  moreover have "pow2 (k - e) = of_int (2 ^ nat (k - e))"
    using ek by (simp add: pow2_def)
  ultimately have "q / pow2 e = of_int (m * 2 ^ nat (k - e))"
    using pow2_pos [of e] by (simp add: q_def)
  then have "of_int (round_half_even (q / pow2 e)) * pow2 e = q / pow2 e * pow2 e"
    by (simp only: round_half_even_of_int)
  also have "\<dots> = q" using pow2_pos [of e] by simp
  finally show ?thesis using q0 by (simp add: round_double_def Let_def q_def [symmetric] e_def)
qed

lemma round_double_nonneg:
  assumes "0 \<le> q"
  shows "0 \<le> round_double q"
proof -
  define e where "e = max (floor_log2 \<bar>q\<bar> - 52) (- 1074)"
  have "0 \<le> q / pow2 e" using assms pow2_pos [of e] by simp
  then have "0 \<le> round_half_even (q / pow2 e)" by (rule round_half_even_nonneg)
  then have "0 \<le> rat_of_int (round_half_even (q / pow2 e)) * pow2 e"
    using pow2_pos [of e] by (intro mult_nonneg_nonneg) simp_all
  then show ?thesis by (simp add: round_double_def Let_def e_def)
qed

lemma round_double_upper:
  assumes "0 < q"
  shows "round_double q \<le> 2 * q + 1"
proof -
  define e where "e = max (floor_log2 \<bar>q\<bar> - 52) (- 1074)"
  define p where "p = pow2 e"
  have p0: "0 < p" by (simp add: p_def pow2_pos)
  have "p \<le> pow2 (floor_log2 q) \<or> p \<le> 1"
  proof (cases "floor_log2 \<bar>q\<bar> - 52 \<le> - 1074")
    case True
    then have "e = - 1074" by (simp add: e_def)
    then have "p \<le> pow2 0" unfolding p_def by (intro pow2_mono) simp
    then show ?thesis by (simp add: pow2_def)
  next
    case False
    then have "e = floor_log2 q - 52" using assms by (simp add: e_def)
    then have "p \<le> pow2 (floor_log2 q)" unfolding p_def by (intro pow2_mono) simp
    then show ?thesis by simp
  qed
  with floor_log2_lower [OF assms] have pq: "p \<le> q + 1" using assms by linarith
  have "of_int (round_half_even (q / p)) \<le> q / p + 1 / 2"
    using round_half_even_bounds [of "q / p"] by simp
  then have "of_int (round_half_even (q / p)) * p \<le> (q / p + 1 / 2) * p"
    using p0 by (simp add: mult_right_mono)
  also have "\<dots> = q + p / 2" using p0 by (simp add: field_simps)
  finally have "round_double q \<le> q + p / 2"
    using assms by (simp add: round_double_def Let_def e_def p_def)
  with pq assms show ?thesis by linarith
qed

subsection \<open>Dictionaries\<close>

lemma dict_set_nonempty: "dict_set k v d \<noteq> []"
  by (cases d) (auto split: if_splits)

lemma dict_keys_dict_set:
  "dict_keys (dict_set k v d) = (if k \<in> set (dict_keys d) then dict_keys d else dict_keys d @ [k])"
  by (induction d) (force simp: dict_keys_def)+

lemma set_dict_keys_dict_set: "set (dict_keys (dict_set k v d)) = insert k (set (dict_keys d))"
  by (auto simp: dict_keys_dict_set)

lemma distinct_dict_set: "distinct (dict_keys d) \<Longrightarrow> distinct (dict_keys (dict_set k v d))"
  by (simp add: dict_keys_dict_set)

lemma map_of_dict_set: "map_of (dict_set k v d) = (map_of d)(k \<mapsto> v)"
  by (induction d) (auto simp: fun_eq_iff)

lemma dict_set_fresh: "k \<notin> set (dict_keys d) \<Longrightarrow> dict_set k v d = d @ [(k, v)]"
  by (induction d) (auto simp: dict_keys_def)

lemma dict_has_dict_set: "dict_has k' (dict_set k v d) \<longleftrightarrow> k' = k \<or> dict_has k' d"
  by (auto simp: dict_has_def set_dict_keys_dict_set)

lemma in_dict_set: "(k', v') \<in> set (dict_set k v d) \<Longrightarrow> v' = v \<or> (k', v') \<in> set d"
  by (induction d) (auto split: if_splits)

lemma set_dict_set_values: "snd ` set (dict_set k v d) \<subseteq> insert v (snd ` set d)"
  using in_dict_set [of _ _ k v d] by force

subsection \<open>Byte counts\<close>

lemma gb_as_pow2: "rat_of_nat n / 1024 ^ 3 = of_int (int n) * pow2 (- 30)"
  by (simp add: pow2_def)

lemma fmt_gb_exact:
  assumes "n < 2 ^ 53"
  shows "fmt_gb n = Inr (spec_bytes_to_gb n)"
proof -
  define q where "q = rat_of_nat n / 1073741824"
  have q: "rat_of_int (int n) / rat_of_int (1024 ^ 3) = q" by (simp add: q_def)
  have "\<bar>int n\<bar> < 2 ^ 53" using assms by (simp add: of_nat_less_numeral_power_cancel_iff)
  then have "round_double (of_int (int n) * pow2 (- 30)) = of_int (int n) * pow2 (- 30)"
    by (intro round_double_exact) simp_all
  then have r: "round_double q = q" by (simp add: q_def pow2_def)
  have "rat_of_nat n < 2 ^ 53" using assms by (simp add: of_nat_less_numeral_power_cancel_iff)
  then have b: "\<not> double_max_bound \<le> \<bar>q\<bar>" by (simp add: q_def double_max_bound_def)
  have "py_truediv (int n) (1024 ^ 3) = Inr q"
    unfolding py_truediv_def q Let_def r using b by simp
  then show ?thesis
    by (simp add: fmt_gb_def bind_exn_def spec_bytes_to_gb_def q_def)
qed

lemma fmt_gb_float:
  "fmt_gb n = Inr s \<Longrightarrow> s = format_fixed 2 (round_double (of_nat n / 1024 ^ 3)) @ '' GB''"
  by (auto simp: fmt_gb_def py_truediv_def bind_exn_def Let_def split: if_splits)

lemma fmt_gb_total:
  assumes "n < 2 ^ 1000"
  shows "\<exists>s. fmt_gb n = Inr s"
proof -
  define q where "q = rat_of_nat n / 1024 ^ 3"
  have q0: "0 \<le> q" by (simp add: q_def)
  have "rat_of_nat n < 2 ^ 1000"
    using assms by (simp add: of_nat_less_numeral_power_cancel_iff)
  then have q1: "q < 2 ^ 1000" by (simp add: q_def)
  have "round_double q \<le> 2 * q + 1"
  proof (cases "q = 0")
    case True
    then show ?thesis by (simp add: round_double_def)
  next
    case False
    with q0 show ?thesis by (intro round_double_upper) simp
  qed
  with q1 have "round_double q < 2 ^ 1024" by simp
  moreover have "0 \<le> round_double q" using q0 by (rule round_double_nonneg)
  ultimately have "\<not> double_max_bound \<le> \<bar>round_double q\<bar>"
    by (simp add: double_max_bound_def)
  then show ?thesis
    by (simp add: fmt_gb_def py_truediv_def bind_exn_def Let_def q_def)
qed

lemma fmt_gb_examples:
  "fmt_gb 1073741824 = Inr ''1.00 GB''" "fmt_gb 0 = Inr ''0.00 GB''"
  "fmt_gb 1610612736 = Inr ''1.50 GB''"
  by (simp_all add: fmt_gb_exact spec_bytes_to_gb_def eval_text)

lemma get_memory_info_fields:
  assumes "get_memory_info h = Inr m"
  shows "map_of m ''Total RAM'' = result_of (fmt_gb (vm_total (virtual_memory h)))"
    and "map_of m ''Available RAM'' = result_of (fmt_gb (vm_available (virtual_memory h)))"
    and "map_of m ''Total Swap'' = result_of (fmt_gb (sw_total (swap_memory h)))"
  using assms
  by (auto simp: get_memory_info_def bind_exn_def result_of_def Let_def split: sum.splits)

lemma disk_entry_fields:
  assumes "disk_entry h p = Inr entry"
  shows "\<exists>u. disk_usage h (part_mountpoint p) = Inr u
           \<and> map_of entry ''Total Size'' = result_of (fmt_gb (du_total u))
           \<and> map_of entry ''Used'' = result_of (fmt_gb (du_used u))
           \<and> map_of entry ''Free'' = result_of (fmt_gb (du_free u))"
  using assms
  by (auto simp: disk_entry_def bind_exn_def result_of_def split: sum.splits)

text \<open>
  Claim C6. Every conversion of a byte count (three in the memory collector, three in
  the disk collector) is \<open>fmt_gb\<close>: the count divided by \<open>1024\<^sup>3\<close> as a binary64
  quotient, written with two decimals and the suffix \<^verbatim>\<open> GB\<close>. Below \<open>2\<^sup>5\<^sup>3\<close> bytes the
  quotient is exact and the text is the specification's; \<open>1073741824\<close> bytes give
  \<^verbatim>\<open>1.00 GB\<close> and \<open>0\<close> bytes give \<^verbatim>\<open>0.00 GB\<close>.
\<close>

theorem bytes_to_gb_conversion:
  "(\<forall>s. fmt_gb n = Inr s \<longrightarrow>
        s = format_fixed 2 (round_double (of_nat n / 1024 ^ 3)) @ '' GB'')
   \<and> (n < 2 ^ 53 \<longrightarrow> fmt_gb n = Inr (spec_bytes_to_gb n))
   \<and> fmt_gb 1073741824 = Inr ''1.00 GB''
   \<and> fmt_gb 0 = Inr ''0.00 GB''
   \<and> (\<forall>m. get_memory_info h = Inr m \<longrightarrow>
          map_of m ''Total RAM'' = result_of (fmt_gb (vm_total (virtual_memory h)))
        \<and> map_of m ''Available RAM'' = result_of (fmt_gb (vm_available (virtual_memory h)))
        \<and> map_of m ''Total Swap'' = result_of (fmt_gb (sw_total (swap_memory h))))
   \<and> (\<forall>entry. disk_entry h p = Inr entry \<longrightarrow>
          (\<exists>u. disk_usage h (part_mountpoint p) = Inr u
             \<and> map_of entry ''Total Size'' = result_of (fmt_gb (du_total u))
             \<and> map_of entry ''Used'' = result_of (fmt_gb (du_used u))
             \<and> map_of entry ''Free'' = result_of (fmt_gb (du_free u))))"
  using fmt_gb_float [of n] fmt_gb_exact [of n] fmt_gb_examples(1,2)
    get_memory_info_fields [of h] disk_entry_fields [of h p]
  by blast

lemma usage_percent_examples:
  "usage_percent \<lparr> du_total = 68719476736, du_used = 66571993088, du_free = 2147483648 \<rparr>
     = Inr (Finite (775 / 8))"
  "usage_percent \<lparr> du_total = 137438953472, du_used = 68719476736, du_free = 68719476736 \<rparr>
     = Inr (Finite 50)"
  by (simp_all add: usage_percent_def eval_float)

lemma get_memory_info_linux_host:
  "get_memory_info linux_host =
     Inr [(''Total RAM'', ''16.00 GB''), (''Available RAM'', ''8.00 GB''),
          (''RAM Usage'', ''50.0%''), (''Total Swap'', ''0.00 GB''), (''Swap Usage'', ''0.0%'')]"
  by (simp add: get_memory_info_def linux_host_def fmt_gb_exact spec_bytes_to_gb_def
      bind_exn_def eval_text)

lemma disk_entry_part_root:
  "disk_entry linux_host part_root =
     Inr [(''Mountpoint'', ''/''), (''File System'', ''ext4''), (''Total Size'', ''64.00 GB''),
          (''Used'', ''62.00 GB''), (''Free'', ''2.00 GB''), (''Usage %'', ''96.9%'')]"
  by (simp add: disk_entry_def eval_host fmt_gb_exact spec_bytes_to_gb_def
      usage_percent_examples bind_exn_def eval_text)

lemma disk_entry_part_home:
  "disk_entry linux_host part_home =
     Inr [(''Mountpoint'', ''/home''), (''File System'', ''ext4''),
          (''Total Size'', ''128.00 GB''), (''Used'', ''64.00 GB''), (''Free'', ''64.00 GB''),
          (''Usage %'', ''50.0%'')]"
  by (simp add: disk_entry_def eval_host fmt_gb_exact spec_bytes_to_gb_def
      usage_percent_examples bind_exn_def eval_text)

theorem bytes_to_gb_conversion_witness:
  "(1610612736 :: nat) < 2 ^ 53
   \<and> fmt_gb 1610612736 = Inr (spec_bytes_to_gb 1610612736)
   \<and> spec_bytes_to_gb 1610612736 = ''1.50 GB''
   \<and> get_memory_info linux_host =
       Inr [(''Total RAM'', ''16.00 GB''), (''Available RAM'', ''8.00 GB''),
            (''RAM Usage'', ''50.0%''), (''Total Swap'', ''0.00 GB''), (''Swap Usage'', ''0.0%'')]
   \<and> result_of (fmt_gb (vm_total (virtual_memory linux_host))) = Some ''16.00 GB''
   \<and> result_of (fmt_gb (vm_available (virtual_memory linux_host))) = Some ''8.00 GB''
   \<and> result_of (fmt_gb (sw_total (swap_memory linux_host))) = Some ''0.00 GB''
   \<and> disk_entry linux_host part_root =
       Inr [(''Mountpoint'', ''/''), (''File System'', ''ext4''), (''Total Size'', ''64.00 GB''),
            (''Used'', ''62.00 GB''), (''Free'', ''2.00 GB''), (''Usage %'', ''96.9%'')]
   \<and> result_of (fmt_gb (du_total (projr (disk_usage linux_host (part_mountpoint part_root)))))
       = Some ''64.00 GB''"
proof -
  have n: "(1610612736 :: nat) < 2 ^ 53" by simp
  note c = bytes_to_gb_conversion [of 1610612736 linux_host part_root]
  from c n have c1: "fmt_gb 1610612736 = Inr (spec_bytes_to_gb 1610612736)" by blast
  from c get_memory_info_linux_host
  have c2: "map_of [(''Total RAM'', ''16.00 GB''), (''Available RAM'', ''8.00 GB''),
                    (''RAM Usage'', ''50.0%''), (''Total Swap'', ''0.00 GB''),
                    (''Swap Usage'', ''0.0%'')] ''Total RAM''
            = result_of (fmt_gb (vm_total (virtual_memory linux_host)))"
    and c3: "map_of [(''Total RAM'', ''16.00 GB''), (''Available RAM'', ''8.00 GB''),
                    (''RAM Usage'', ''50.0%''), (''Total Swap'', ''0.00 GB''),
                    (''Swap Usage'', ''0.0%'')] ''Available RAM''
            = result_of (fmt_gb (vm_available (virtual_memory linux_host)))"
    and c4: "map_of [(''Total RAM'', ''16.00 GB''), (''Available RAM'', ''8.00 GB''),
                    (''RAM Usage'', ''50.0%''), (''Total Swap'', ''0.00 GB''),
                    (''Swap Usage'', ''0.0%'')] ''Total Swap''
            = result_of (fmt_gb (sw_total (swap_memory linux_host)))"
    by blast+
  from c disk_entry_part_root
  obtain u where u: "disk_usage linux_host (part_mountpoint part_root) = Inr u"
    and c5: "map_of [(''Mountpoint'', ''/''), (''File System'', ''ext4''),
                     (''Total Size'', ''64.00 GB''), (''Used'', ''62.00 GB''),
                     (''Free'', ''2.00 GB''), (''Usage %'', ''96.9%'')] ''Total Size''
             = result_of (fmt_gb (du_total u))"
    by blast
  have c6: "spec_bytes_to_gb 1610612736 = ''1.50 GB''"
    using fmt_gb_examples(3) c1 by simp
  show ?thesis
    using n c1 c2 [symmetric] c3 [symmetric] c4 [symmetric] c5 [symmetric] u c6
      get_memory_info_linux_host disk_entry_part_root
    by simp
qed

subsection \<open>Temperature collector\<close>

lemma temp_threshold_absent: "temp_threshold None = ''N/A''"
  by (simp add: temp_threshold_def float_truthy_def)

lemma temp_threshold_zero: "temp_threshold (Some 0) = ''N/A''"
  by (simp add: temp_threshold_def float_truthy_def)

lemma temp_threshold_reported:
  "x \<noteq> 0 \<Longrightarrow> temp_threshold (Some x) = format_fixed 1 x @ degrees_c"
  by (simp add: temp_threshold_def float_truthy_def)

lemma degrees_not_absent: "s @ degrees_c \<noteq> ''N/A''"
proof
  assume "s @ degrees_c = ''N/A''"
  then have "last (s @ degrees_c) = last ''N/A''" by simp
  then show False by (simp add: degrees_c_def)
qed

lemma temp_threshold_absent_iff: "temp_threshold v = ''N/A'' \<longleftrightarrow> v = None \<or> v = Some 0"
  by (cases v) (auto simp: temp_threshold_def float_truthy_def degrees_not_absent)

lemma temp_entry_fields:
  "td_label (temp_entry e) = (if temp_label e = [] then ''N/A'' else temp_label e)"
  "td_current (temp_entry e) = format_fixed 1 (temp_current e) @ degrees_c"
  "td_high (temp_entry e) = temp_threshold (temp_high e)"
  "td_critical (temp_entry e) = temp_threshold (temp_critical e)"
  by (simp_all add: temp_entry_def)

text \<open>
  Claim C8, at the input where the code departs from it: a sensor that reports a high
  and a critical threshold of \<open>0.0\<close>. The code tests the truth value of the
  threshold, and the float zero is false, so both are shown as \<^verbatim>\<open>N/A\<close>.
\<close>

theorem zero_threshold_shown_as_absent:
  "temp_high zero_threshold_sensor = Some 0
   \<and> temp_critical zero_threshold_sensor = Some 0
   \<and> temp_entry zero_threshold_sensor =
       \<lparr> td_label = ''temp1'', td_current = ''35.0'' @ degrees_c,
         td_high = ''N/A'', td_critical = ''N/A'' \<rparr>"
  by (simp add: zero_threshold_sensor_def temp_entry_def temp_threshold_zero eval_text)

lemma temp_groups_nonempty: "acc \<noteq> [] \<Longrightarrow> temp_groups temps acc \<noteq> []"
proof (induction temps arbitrary: acc)
  case Nil
  then show ?case by simp
next
  case (Cons g temps)
  obtain name entries where g: "g = (name, entries)" by (cases g)
  show ?case unfolding g temp_groups.simps by (rule Cons.IH) (rule dict_set_nonempty)
qed

lemma temp_groups_empty_iff: "temp_groups temps [] = [] \<longleftrightarrow> temps = []"
proof (cases temps)
  case Nil
  then show ?thesis by simp
next
  case (Cons g rest)
  obtain name entries where g: "g = (name, entries)" by (cases g)
  have "temp_groups temps [] \<noteq> []"
    unfolding Cons g temp_groups.simps by (rule temp_groups_nonempty) (rule dict_set_nonempty)
  with Cons show ?thesis by simp
qed

lemma temp_groups_keys:
  "set (dict_keys (temp_groups temps acc)) = set (dict_keys acc) \<union> fst ` set temps"
proof (induction temps arbitrary: acc)
  case Nil
  then show ?case by simp
next
  case (Cons g temps)
  obtain name entries where g: "g = (name, entries)" by (cases g)
  have "set (dict_keys (temp_groups (g # temps) acc))
          = insert name (set (dict_keys acc)) \<union> fst ` set temps"
    unfolding g temp_groups.simps Cons.IH set_dict_keys_dict_set ..
  also have "\<dots> = set (dict_keys acc) \<union> fst ` set (g # temps)"
    by (simp add: g)
  finally show ?case .
qed

lemma temp_groups_values:
  "\<forall>v \<in> snd ` set acc. \<exists>rs. v = TReadings rs
   \<Longrightarrow> \<forall>v \<in> snd ` set (temp_groups temps acc). \<exists>rs. v = TReadings rs"
proof (induction temps arbitrary: acc)
  case Nil
  then show ?case by simp
next
  case (Cons g temps)
  obtain name entries where g: "g = (name, entries)" by (cases g)
  have "\<forall>v \<in> snd ` set (dict_set name (TReadings (map temp_entry entries)) acc).
          \<exists>rs. v = TReadings rs"
    using Cons.prems set_dict_set_values [of name "TReadings (map temp_entry entries)" acc]
    by blast
  then show ?case using Cons.IH g by simp
qed

text \<open>
  Claim C4. \<open>get_temperature_info\<close> is a function of the host with no error result: the
  bare \<^verbatim>\<open>except\<close> turns every exception of the sensor query into the ``not available''
  sentinel, and a host with no sensor group gets the ``no sensors'' sentinel. Otherwise
  the mapping has exactly the groups of the host, each with its list of readings. The
  result is never empty.
\<close>

theorem get_temperature_info_sentinel:
  "(\<forall>e. sensors_temperatures h = Inl e \<longrightarrow>
        get_temperature_info h = [(''Status'', TStatus ''Temperature monitoring not available'')])
   \<and> (sensors_temperatures h = Inr [] \<longrightarrow>
        get_temperature_info h = [(''Status'', TStatus ''No temperature sensors detected'')])
   \<and> (\<forall>temps. sensors_temperatures h = Inr temps \<and> temps \<noteq> [] \<longrightarrow>
          set (dict_keys (get_temperature_info h)) = fst ` set temps
        \<and> (\<forall>v \<in> snd ` set (get_temperature_info h). \<exists>readings. v = TReadings readings))
   \<and> get_temperature_info h \<noteq> []"
proof (cases "sensors_temperatures h")
  case (Inl e)
  then show ?thesis by (simp add: get_temperature_info_def temperature_try_def bind_exn_def)
next
  case (Inr temps)
  show ?thesis
  proof (cases "temps = []")
    case True
    with Inr show ?thesis
      by (simp add: get_temperature_info_def temperature_try_def bind_exn_def)
  next
    case False
    then have ne: "temp_groups temps [] \<noteq> []" by (simp add: temp_groups_empty_iff)
    then have r: "get_temperature_info h = temp_groups temps []"
      using Inr by (simp add: get_temperature_info_def temperature_try_def bind_exn_def)
    have "\<forall>v \<in> snd ` set (temp_groups temps []). \<exists>rs. v = TReadings rs"
      by (rule temp_groups_values) simp
    then show ?thesis
      using Inr False ne r temp_groups_keys [of temps "[]"] by (simp add: dict_keys_def)
  qed
qed

theorem get_temperature_info_sentinel_witness:
  "sensors_temperatures no_sensor_support_host
     = Inl (Exn AttributeError ''module 'psutil' has no attribute 'sensors_temperatures' '')
   \<and> get_temperature_info no_sensor_support_host
       = [(''Status'', TStatus ''Temperature monitoring not available'')]
   \<and> sensors_temperatures no_sensors_host = Inr []
   \<and> get_temperature_info no_sensors_host
       = [(''Status'', TStatus ''No temperature sensors detected'')]
   \<and> set (dict_keys (get_temperature_info linux_host)) = {''coretemp''}"
proof -
  have a: "sensors_temperatures no_sensor_support_host
             = Inl (Exn AttributeError ''module 'psutil' has no attribute 'sensors_temperatures' '')"
    by (simp add: no_sensor_support_host_def)
  have b: "sensors_temperatures no_sensors_host = Inr []"
    by (simp add: no_sensors_host_def)
  have c: "sensors_temperatures linux_host
             = Inr [(''coretemp'',
                     [\<lparr> temp_label = ''Core 0'', temp_current = 45, temp_high = Some 80,
                         temp_critical = Some 100 \<rparr>,
                      \<lparr> temp_label = [], temp_current = 81 / 2, temp_high = None,
                         temp_critical = None \<rparr>])]
           \<and> [(''coretemp'',
                     [\<lparr> temp_label = ''Core 0'', temp_current = 45, temp_high = Some 80,
                         temp_critical = Some 100 \<rparr>,
                      \<lparr> temp_label = [], temp_current = 81 / 2, temp_high = None,
                         temp_critical = None \<rparr>])] \<noteq> []"
    by (simp add: linux_host_def)
  note a' = get_temperature_info_sentinel [of no_sensor_support_host, THEN conjunct1,
      rule_format, OF a]
  note b' = get_temperature_info_sentinel [of no_sensors_host, THEN conjunct2, THEN conjunct1,
      rule_format, OF b]
  note c1 = get_temperature_info_sentinel [of linux_host, THEN conjunct2, THEN conjunct2,
      THEN conjunct1, rule_format, OF c, THEN conjunct1]
  have c': "set (dict_keys (get_temperature_info linux_host)) = {''coretemp''}"
    using c1 by simp
  from a a' b b' c' show ?thesis by simp
qed

subsection \<open>BIOS collector\<close>

lemma bios_try_failure:
  "snd (bios_try h) = Some e \<Longrightarrow>
     platform_system h = ''Windows'' \<and> wmic_bios h = Inl e \<and> fst (bios_try h) = []"
  by (auto simp: bios_try_def split: if_splits sum.splits)

text \<open>
  Claim C5. \<open>get_bios_info\<close> is a function of the host with no error result. On a
  platform that is neither Windows nor Linux, and whenever the \<^verbatim>\<open>try\<close> block ends with
  an empty mapping, the result is the ``not accessible'' sentinel. An exception of the
  block (only the call of the external tool can raise one) gives the single entry
  \<^verbatim>\<open>Error\<close> with the description. The result is never empty.
\<close>

theorem get_bios_info_total:
  "(platform_system h \<noteq> ''Windows'' \<and> platform_system h \<noteq> ''Linux'' \<longrightarrow>
      get_bios_info h = [(''Status'', ''BIOS information not accessible'')])
   \<and> (bios_try h = ([], None) \<longrightarrow>
        get_bios_info h = [(''Status'', ''BIOS information not accessible'')])
   \<and> (\<forall>e. platform_system h = ''Windows'' \<and> wmic_bios h = Inl e \<longrightarrow>
          snd (bios_try h) = Some e)
   \<and> (\<forall>e. snd (bios_try h) = Some e \<longrightarrow>
          get_bios_info h = [(''Error'', ''Could not retrieve BIOS info: '' @ exn_message e)])
   \<and> get_bios_info h \<noteq> []"
proof -
  have 1: "platform_system h \<noteq> ''Windows'' \<and> platform_system h \<noteq> ''Linux'' \<longrightarrow>
             get_bios_info h = [(''Status'', ''BIOS information not accessible'')]"
    by (simp add: get_bios_info_def bios_try_def)
  have 2: "bios_try h = ([], None) \<longrightarrow>
             get_bios_info h = [(''Status'', ''BIOS information not accessible'')]"
    by (simp add: get_bios_info_def)
  have 3: "\<forall>e. platform_system h = ''Windows'' \<and> wmic_bios h = Inl e \<longrightarrow>
             snd (bios_try h) = Some e"
    by (simp add: bios_try_def)
  have 4: "\<forall>e. snd (bios_try h) = Some e \<longrightarrow>
             get_bios_info h = [(''Error'', ''Could not retrieve BIOS info: '' @ exn_message e)]"
  proof (intro allI impI)
    fix e
    assume "snd (bios_try h) = Some e"
    from bios_try_failure [OF this] this have "bios_try h = ([], Some e)"
      by (cases "bios_try h") simp
    then show "get_bios_info h = [(''Error'', ''Could not retrieve BIOS info: '' @ exn_message e)]"
      by (simp add: get_bios_info_def)
  qed
  have 5: "get_bios_info h \<noteq> []"
    by (cases "bios_try h") (auto simp: get_bios_info_def Let_def dict_set_nonempty
        split: option.splits)
  from 1 2 3 4 5 show ?thesis by blast
qed

theorem get_bios_info_total_witness:
  "platform_system darwin_host \<noteq> ''Windows''
   \<and> platform_system darwin_host \<noteq> ''Linux''
   \<and> bios_try darwin_host = ([], None)
   \<and> get_bios_info darwin_host = [(''Status'', ''BIOS information not accessible'')]
   \<and> platform_system windows_host = ''Windows''
   \<and> wmic_bios windows_host
       = Inl (Exn FileNotFoundError ''[Errno 2] No such file or directory: 'wmic' '')
   \<and> get_bios_info windows_host
       = [(''Error'',
           ''Could not retrieve BIOS info: [Errno 2] No such file or directory: 'wmic' '')]"
proof -
  have d: "platform_system darwin_host \<noteq> ''Windows'' \<and> platform_system darwin_host \<noteq> ''Linux''"
    by (simp add: darwin_host_def)
  have d2: "bios_try darwin_host = ([], None)"
    by (simp add: bios_try_def darwin_host_def)
  have w: "platform_system windows_host = ''Windows''"
    by (simp add: windows_host_def)
  have w2: "wmic_bios windows_host
              = Inl (Exn FileNotFoundError ''[Errno 2] No such file or directory: 'wmic' '')"
    by (simp add: windows_host_def linux_host_def)
  note d' = get_bios_info_total [of darwin_host, THEN conjunct1, rule_format, OF d]
  have w3: "platform_system windows_host = ''Windows'' \<and> wmic_bios windows_host
              = Inl (Exn FileNotFoundError ''[Errno 2] No such file or directory: 'wmic' '')"
    using w w2 by simp
  note w4 = get_bios_info_total [of windows_host, THEN conjunct2, THEN conjunct2,
      THEN conjunct1, rule_format, OF w3]
  note w5 = get_bios_info_total [of windows_host, THEN conjunct2, THEN conjunct2,
      THEN conjunct2, THEN conjunct1, rule_format, OF w4]
  have w': "get_bios_info windows_host
              = [(''Error'',
                  ''Could not retrieve BIOS info: [Errno 2] No such file or directory: 'wmic' '')]"
    using w5 by simp
  from d d2 d' w w2 w' show ?thesis by simp
qed

subsection \<open>Disk collector\<close>

lemma str_nat_nonempty: "str_nat n \<noteq> []"
  by (subst str_nat.simps) simp

lemma zero_pad_1: "zero_pad (Suc 0) (str_nat n) = str_nat n"
  using str_nat_nonempty [of n] by (cases "str_nat n") (simp_all add: zero_pad_def)

lemma format_fixed_1: "0 \<le> x \<Longrightarrow> format_fixed (Suc 0) x = spec_round1 x"
  by (simp add: format_fixed_def spec_round1_def Let_def zero_pad_1)

lemma round_double_upper0: "0 \<le> q \<Longrightarrow> round_double q \<le> 2 * q + 1"
proof (cases "q = 0")
  case True
  then show ?thesis by (simp add: round_double_def)
next
  case False
  assume "0 \<le> q"
  with False show ?thesis by (intro round_double_upper) simp
qed

lemma fmt_gb_in_range: "n < 2 ^ 1000 \<Longrightarrow> fmt_gb n = Inr (spec_gb n)"
  using fmt_gb_total [of n] fmt_gb_float [of n] by (auto simp: spec_gb_def)

lemma usage_percent_in_range:
  assumes "usage_in_range u"
  shows "usage_percent u = Inr (Finite (spec_used_percent u))" and "0 \<le> spec_used_percent u"
proof -
  define q where "q = rat_of_nat (du_used u) / rat_of_nat (du_total u)"
  define r1 where "r1 = round_double q"
  define r2 where "r2 = round_double (r1 * 100)"
  from assms have t: "0 < du_total u" and b: "du_used u < 2 ^ 1000"
    by (simp_all add: usage_in_range_def)
  have q0: "0 \<le> q" by (simp add: q_def)
  have "1 \<le> rat_of_nat (du_total u)" using t by simp
  then have "q \<le> rat_of_nat (du_used u)"
    unfolding q_def by (simp add: divide_le_eq mult_le_cancel_left1)
  moreover have "rat_of_nat (du_used u) < 2 ^ 1000"
    using b by (simp add: of_nat_less_numeral_power_cancel_iff)
  ultimately have q1: "q < 2 ^ 1000" by linarith
  have r10: "0 \<le> r1" unfolding r1_def using q0 by (rule round_double_nonneg)
  define B where "B = (2::rat) * 2 ^ 1000 + 1"
  have "r1 \<le> 2 * q + 1" unfolding r1_def using q0 by (rule round_double_upper0)
  with q1 have r11: "r1 < B" unfolding B_def by linarith
  have B1: "B < 2 ^ 1024" and B2: "200 * B + 1 < 2 ^ 1024" by (simp_all add: B_def)
  have n1: "\<not> double_max_bound \<le> \<bar>r1\<bar>"
    using r10 r11 B1 by (simp add: double_max_bound_def)
  have div: "py_truediv (int (du_used u)) (int (du_total u)) = Inr r1"
    using t n1 by (simp add: py_truediv_def Let_def r1_def q_def)
  have r20: "0 \<le> r2" unfolding r2_def using r10 by (intro round_double_nonneg) simp
  have "r2 \<le> 2 * (r1 * 100) + 1"
    unfolding r2_def using r10 by (intro round_double_upper0) simp
  with r11 have "r2 < 200 * B + 1" by linarith
  with B2 have n2: "\<not> double_max_bound \<le> r2" by (simp add: double_max_bound_def)
  have n3: "\<not> r2 \<le> - double_max_bound"
    using r20 by (simp add: double_max_bound_def)
  have "py_fmul r1 100 = Finite r2"
    using n2 n3 by (simp add: py_fmul_def Let_def r2_def)
  with div show "usage_percent u = Inr (Finite (spec_used_percent u))"
    by (simp add: usage_percent_def bind_exn_def spec_used_percent_def r2_def r1_def q_def)
  from r20 show "0 \<le> spec_used_percent u"
    by (simp add: spec_used_percent_def r2_def r1_def q_def)
qed

lemma disk_entry_readable:
  assumes "disk_usage h (part_mountpoint p) = Inr u" and "usage_in_range u"
  shows "disk_entry h p = Inr (spec_disk_entry h p)"
proof -
  from assms(2) have "du_total u < 2 ^ 1000" "du_used u < 2 ^ 1000" "du_free u < 2 ^ 1000"
    by (simp_all add: usage_in_range_def)
  then have "fmt_gb (du_total u) = Inr (spec_gb (du_total u))"
    "fmt_gb (du_used u) = Inr (spec_gb (du_used u))"
    "fmt_gb (du_free u) = Inr (spec_gb (du_free u))"
    by (simp_all add: fmt_gb_in_range)
  then show ?thesis
    using assms(1) usage_percent_in_range [OF assms(2)]
    by (simp add: disk_entry_def spec_disk_entry_def bind_exn_def format_fixed_1)
qed

lemma disk_entry_denied:
  "disk_usage h (part_mountpoint p) = Inl e \<Longrightarrow> disk_entry h p = Inl e"
  by (simp add: disk_entry_def bind_exn_def)

lemma disk_loop_step:
  assumes "usage_readable_or_denied h p"
  shows "disk_loop h (p # ps) acc
           = disk_loop h ps (dict_set (part_device p) (spec_disk_entry h p) acc)"
proof (cases "disk_usage h (part_mountpoint p)")
  case (Inl e)
  with assms have "exn_class e = PermissionError"
    by (simp add: usage_readable_or_denied_def)
  with Inl show ?thesis
    by (simp add: disk_entry_denied spec_disk_entry_def permission_denied_def)
next
  case (Inr u)
  with assms have "usage_in_range u" by (simp add: usage_readable_or_denied_def)
  with Inr show ?thesis by (simp add: disk_entry_readable)
qed

lemma disk_loop_readable_or_denied:
  "\<forall>p \<in> set ps. usage_readable_or_denied h p \<Longrightarrow>
     disk_loop h ps acc
       = Inr (fold (\<lambda>p. dict_set (part_device p) (spec_disk_entry h p)) ps acc)"
proof (induction ps arbitrary: acc)
  case Nil
  then show ?case by simp
next
  case (Cons p ps)
  then have "usage_readable_or_denied h p" by simp
  then show ?case using Cons by (simp only: disk_loop_step) simp
qed

lemma fold_dict_set_distinct:
  "distinct (map f ps) \<Longrightarrow> \<forall>p \<in> set ps. f p \<notin> set (dict_keys acc) \<Longrightarrow>
     fold (\<lambda>p. dict_set (f p) (g p)) ps acc = acc @ map (\<lambda>p. (f p, g p)) ps"
proof (induction ps arbitrary: acc)
  case Nil
  then show ?case by simp
next
  case (Cons p ps)
  from Cons.prems have fresh: "f p \<notin> set (dict_keys acc)" by simp
  have "distinct (map f ps)" using Cons.prems by simp
  moreover have "\<forall>q \<in> set ps. f q \<notin> set (dict_keys (acc @ [(f p, g p)]))"
  proof
    fix q
    assume q: "q \<in> set ps"
    then have "f q \<in> f ` set ps" by (rule imageI)
    moreover from Cons.prems(1) have "f p \<notin> f ` set ps" by simp
    ultimately have "f q \<noteq> f p" by metis
    moreover from q Cons.prems(2) have "f q \<notin> set (dict_keys acc)" by simp
    ultimately show "f q \<notin> set (dict_keys (acc @ [(f p, g p)]))"
      by (simp add: dict_keys_def)
  qed
  ultimately have "fold (\<lambda>p. dict_set (f p) (g p)) ps (acc @ [(f p, g p)])
                     = (acc @ [(f p, g p)]) @ map (\<lambda>p. (f p, g p)) ps"
    by (rule Cons.IH)
  then show ?case by (simp add: dict_set_fresh [OF fresh])
qed

lemma spec_disk_entry_denied_iff:
  "spec_disk_entry h p = permission_denied \<longleftrightarrow> isl (disk_usage h (part_mountpoint p))"
  by (cases "disk_usage h (part_mountpoint p)")
    (simp_all add: spec_disk_entry_def permission_denied_def)

text \<open>
  Claim C2, amended. When the device names of the partitions are distinct and every
  usage query succeeds (with a total that is not zero) or raises a permission error,
  \<open>get_disk_info\<close> returns one entry for each partition, in order, keyed by its
  device: the sentinel for the \<open>K\<close> partitions whose query was denied, and for each
  other partition the six fields, the last being the used percentage rounded to one
  decimal with the suffix \<^verbatim>\<open>%\<close>. A denied partition does not end the collection.
\<close>

theorem get_disk_info_entries:
  assumes "distinct (map part_device (disk_partitions h))"
    and "\<forall>p \<in> set (disk_partitions h). usage_readable_or_denied h p"
  shows "\<exists>d. get_disk_info h = Inr d
           \<and> d = map (\<lambda>p. (part_device p, spec_disk_entry h p)) (disk_partitions h)
           \<and> length d = length (disk_partitions h)
           \<and> length (filter (\<lambda>e. snd e = permission_denied) d)
               = length (filter (\<lambda>p. isl (disk_usage h (part_mountpoint p))) (disk_partitions h))
           \<and> (\<forall>e \<in> set d. snd e \<noteq> permission_denied \<longrightarrow> dict_keys (snd e) = disk_labels)"
proof -
  define d where "d = map (\<lambda>p. (part_device p, spec_disk_entry h p)) (disk_partitions h)"
  have "get_disk_info h
          = Inr (fold (\<lambda>p. dict_set (part_device p) (spec_disk_entry h p)) (disk_partitions h) [])"
    unfolding get_disk_info_def using assms(2) by (rule disk_loop_readable_or_denied)
  also have "fold (\<lambda>p. dict_set (part_device p) (spec_disk_entry h p)) (disk_partitions h) []
               = [] @ d"
    unfolding d_def using assms(1) by (rule fold_dict_set_distinct) (simp add: dict_keys_def)
  finally have 1: "get_disk_info h = Inr d" by simp
  have 2: "length (filter (\<lambda>e. snd e = permission_denied) d)
             = length (filter (\<lambda>p. isl (disk_usage h (part_mountpoint p))) (disk_partitions h))"
    by (simp add: d_def filter_map comp_def spec_disk_entry_denied_iff)
  have 3: "\<forall>e \<in> set d. snd e \<noteq> permission_denied \<longrightarrow> dict_keys (snd e) = disk_labels"
    by (auto simp: d_def spec_disk_entry_def permission_denied_def dict_keys_def disk_labels_def
        split: sum.splits)
  from 1 2 3 show ?thesis by (simp add: d_def)
qed

lemma spec_gb_exact: "n < 2 ^ 53 \<Longrightarrow> spec_gb n = spec_bytes_to_gb n"
proof -
  assume n: "n < 2 ^ 53"
  then have "n < 2 ^ 1000"
    by (rule less_trans) simp
  then have "fmt_gb n = Inr (spec_gb n)" by (rule fmt_gb_in_range)
  with fmt_gb_exact [OF n] show ?thesis by simp
qed

lemma spec_used_percent_examples:
  "spec_used_percent \<lparr> du_total = 68719476736, du_used = 66571993088, du_free = 2147483648 \<rparr>
     = 775 / 8"
  "spec_used_percent \<lparr> du_total = 137438953472, du_used = 68719476736, du_free = 68719476736 \<rparr>
     = 50"
  by (simp_all add: spec_used_percent_def eval_float)

lemma spec_disk_entry_examples:
  "spec_disk_entry linux_host part_root =
     [(''Mountpoint'', ''/''), (''File System'', ''ext4''), (''Total Size'', ''64.00 GB''),
      (''Used'', ''62.00 GB''), (''Free'', ''2.00 GB''), (''Usage %'', ''96.9%'')]"
  "spec_disk_entry linux_host part_home =
     [(''Mountpoint'', ''/home''), (''File System'', ''ext4''), (''Total Size'', ''128.00 GB''),
      (''Used'', ''64.00 GB''), (''Free'', ''64.00 GB''), (''Usage %'', ''50.0%'')]"
  "spec_disk_entry linux_host part_denied = [(''Status'', ''Permission denied'')]"
  "spec_disk_entry twice_mounted_host part_root =
     [(''Mountpoint'', ''/''), (''File System'', ''ext4''), (''Total Size'', ''64.00 GB''),
      (''Used'', ''62.00 GB''), (''Free'', ''2.00 GB''), (''Usage %'', ''96.9%'')]"
  "spec_disk_entry twice_mounted_host part_home_same_device =
     [(''Mountpoint'', ''/home''), (''File System'', ''ext4''), (''Total Size'', ''128.00 GB''),
      (''Used'', ''64.00 GB''), (''Free'', ''64.00 GB''), (''Usage %'', ''50.0%'')]"
  by (simp_all add: spec_disk_entry_def eval_host spec_gb_exact spec_bytes_to_gb_def
      spec_used_percent_examples spec_round1_def eval_text)

lemma usage_readable_or_denied_examples:
  "usage_readable_or_denied linux_host part_root"
  "usage_readable_or_denied linux_host part_home"
  "usage_readable_or_denied linux_host part_denied"
  "usage_readable_or_denied twice_mounted_host part_root"
  "usage_readable_or_denied twice_mounted_host part_home_same_device"
  by (simp_all add: usage_readable_or_denied_def usage_in_range_def eval_host)

theorem get_disk_info_entries_witness:
  "disk_partitions linux_host = [part_root, part_home, part_denied]
   \<and> distinct (map part_device (disk_partitions linux_host))
   \<and> usage_readable_or_denied linux_host part_root
   \<and> usage_readable_or_denied linux_host part_home
   \<and> usage_readable_or_denied linux_host part_denied
   \<and> isl (disk_usage linux_host (part_mountpoint part_denied))
   \<and> get_disk_info linux_host =
       Inr [(''/dev/sda1'',
             [(''Mountpoint'', ''/''), (''File System'', ''ext4''), (''Total Size'', ''64.00 GB''),
              (''Used'', ''62.00 GB''), (''Free'', ''2.00 GB''), (''Usage %'', ''96.9%'')]),
            (''/dev/sda2'',
             [(''Mountpoint'', ''/home''), (''File System'', ''ext4''),
              (''Total Size'', ''128.00 GB''), (''Used'', ''64.00 GB''),
              (''Free'', ''64.00 GB''), (''Usage %'', ''50.0%'')]),
            (''/dev/sda3'', [(''Status'', ''Permission denied'')])]"
proof -
  have ps: "disk_partitions linux_host = [part_root, part_home, part_denied]"
    by (simp add: linux_host_def)
  have d: "distinct (map part_device (disk_partitions linux_host))"
    by (simp add: eval_host)
  have r: "\<forall>p \<in> set (disk_partitions linux_host). usage_readable_or_denied linux_host p"
    by (simp add: ps usage_readable_or_denied_examples)
  have k: "isl (disk_usage linux_host (part_mountpoint part_denied))"
    by (simp add: eval_host)
  from get_disk_info_entries [OF d r]
  have "get_disk_info linux_host
          = Inr (map (\<lambda>p. (part_device p, spec_disk_entry linux_host p))
                   (disk_partitions linux_host))"
    by simp
  then have "get_disk_info linux_host =
       Inr [(''/dev/sda1'',
             [(''Mountpoint'', ''/''), (''File System'', ''ext4''), (''Total Size'', ''64.00 GB''),
              (''Used'', ''62.00 GB''), (''Free'', ''2.00 GB''), (''Usage %'', ''96.9%'')]),
            (''/dev/sda2'',
             [(''Mountpoint'', ''/home''), (''File System'', ''ext4''),
              (''Total Size'', ''128.00 GB''), (''Used'', ''64.00 GB''),
              (''Free'', ''64.00 GB''), (''Usage %'', ''50.0%'')]),
            (''/dev/sda3'', [(''Status'', ''Permission denied'')])]"
    by (simp add: ps spec_disk_entry_examples) (simp add: eval_host)
  with ps d k show ?thesis by (simp add: usage_readable_or_denied_examples)
qed

text \<open>
  Claim C2 as stated fails where two partitions have the same device name (one file
  system mounted at two places): the second entry replaces the first, and the mapping
  has one entry for two partitions, none of which was denied.
\<close>

theorem same_device_one_entry:
  "disk_partitions twice_mounted_host = [part_root, part_home_same_device]
   \<and> length (disk_partitions twice_mounted_host) = 2
   \<and> \<not> isl (disk_usage twice_mounted_host (part_mountpoint part_root))
   \<and> \<not> isl (disk_usage twice_mounted_host (part_mountpoint part_home_same_device))
   \<and> get_disk_info twice_mounted_host =
       Inr [(''/dev/sda1'',
             [(''Mountpoint'', ''/home''), (''File System'', ''ext4''),
              (''Total Size'', ''128.00 GB''), (''Used'', ''64.00 GB''),
              (''Free'', ''64.00 GB''), (''Usage %'', ''50.0%'')])]"
proof -
  have ps: "disk_partitions twice_mounted_host = [part_root, part_home_same_device]"
    by (simp add: twice_mounted_host_def)
  have "get_disk_info twice_mounted_host
          = Inr (fold (\<lambda>p. dict_set (part_device p) (spec_disk_entry twice_mounted_host p))
                   (disk_partitions twice_mounted_host) [])"
    unfolding get_disk_info_def
    by (rule disk_loop_readable_or_denied) (simp add: ps usage_readable_or_denied_examples)
  then have "get_disk_info twice_mounted_host =
       Inr [(''/dev/sda1'',
             [(''Mountpoint'', ''/home''), (''File System'', ''ext4''),
              (''Total Size'', ''128.00 GB''), (''Used'', ''64.00 GB''),
              (''Free'', ''64.00 GB''), (''Usage %'', ''50.0%'')])]"
    by (simp add: ps spec_disk_entry_examples) (simp add: eval_host)
  then show ?thesis by (simp add: ps) (simp add: eval_host)
qed

subsection \<open>Health evaluator\<close>

lemma health_disk_try_over_90:
  "health_disk_try h p = Inr (Some w) \<Longrightarrow> over_90 h p"
  "health_disk_try h p = Inr None \<Longrightarrow> \<not> over_90 h p"
  "health_disk_try h p = Inl e \<Longrightarrow> \<not> over_90 h p"
  by (auto simp: health_disk_try_def over_90_def bind_exn_def split: sum.splits if_splits)

lemma health_disk_try_readable_or_denied:
  assumes "usage_readable_or_denied h p"
  shows "(\<exists>e. health_disk_try h p = Inl e \<and> exn_class e = PermissionError)
           \<or> (\<exists>w. health_disk_try h p = Inr w)"
proof (cases "disk_usage h (part_mountpoint p)")
  case (Inl e)
  with assms show ?thesis
    by (simp add: usage_readable_or_denied_def health_disk_try_def bind_exn_def)
next
  case (Inr u)
  with assms have "usage_in_range u" by (simp add: usage_readable_or_denied_def)
  from usage_percent_in_range(1) [OF this] Inr show ?thesis
    by (simp add: health_disk_try_def bind_exn_def)
qed

lemma disk_warning_key_inject: "disk_warning_key a = disk_warning_key b \<longleftrightarrow> a = b"
  by (simp add: disk_warning_key_def)

lemma health_disk_loop_keys:
  "health_disk_loop h ps acc = Inr hs \<Longrightarrow>
     set (dict_keys hs)
       = set (dict_keys acc) \<union> {disk_warning_key (part_device p) | p. p \<in> set ps \<and> over_90 h p}"
proof (induction ps arbitrary: acc)
  case Nil
  then show ?case by simp
next
  case (Cons p ps)
  show ?case
  proof (cases "health_disk_try h p")
    case (Inl e)
    with Cons.prems have "health_disk_loop h ps acc = Inr hs"
      by (simp split: if_splits)
    from Cons.IH [OF this] health_disk_try_over_90(3) [OF Inl] show ?thesis by auto
  next
    case (Inr w)
    show ?thesis
    proof (cases w)
      case None
      with Inr Cons.prems have "health_disk_loop h ps acc = Inr hs" by simp
      from Cons.IH [OF this] health_disk_try_over_90(2) [of h p] Inr None show ?thesis by auto
    next
      case (Some msg)
      with Inr Cons.prems
      have "health_disk_loop h ps (dict_set (disk_warning_key (part_device p)) msg acc) = Inr hs"
        by simp
      from Cons.IH [OF this] health_disk_try_over_90(1) [of h p msg] Inr Some show ?thesis
        by (auto simp: set_dict_keys_dict_set)
    qed
  qed
qed

lemma health_disk_loop_distinct:
  "health_disk_loop h ps acc = Inr hs \<Longrightarrow> distinct (dict_keys acc) \<Longrightarrow> distinct (dict_keys hs)"
proof (induction ps arbitrary: acc)
  case Nil
  then show ?case by simp
next
  case (Cons p ps)
  show ?case
  proof (cases "health_disk_try h p")
    case (Inl e)
    with Cons.prems have "health_disk_loop h ps acc = Inr hs" by (simp split: if_splits)
    then show ?thesis using Cons.prems(2) by (rule Cons.IH)
  next
    case (Inr w)
    show ?thesis
    proof (cases w)
      case None
      with Inr Cons.prems have "health_disk_loop h ps acc = Inr hs" by simp
      then show ?thesis using Cons.prems(2) by (rule Cons.IH)
    next
      case (Some msg)
      with Inr Cons.prems
      have "health_disk_loop h ps (dict_set (disk_warning_key (part_device p)) msg acc) = Inr hs"
        by simp
      then show ?thesis
        using distinct_dict_set [OF Cons.prems(2)] by (rule Cons.IH)
    qed
  qed
qed

lemma health_disk_loop_total:
  "\<forall>p \<in> set ps. usage_readable_or_denied h p \<Longrightarrow> \<exists>hs. health_disk_loop h ps acc = Inr hs"
proof (induction ps arbitrary: acc)
  case Nil
  then show ?case by simp
next
  case (Cons p ps)
  then have "usage_readable_or_denied h p" by simp
  from health_disk_try_readable_or_denied [OF this] Cons show ?case
    by (auto split: option.splits)
qed

text \<open>The mapping before the disk check: three fixed entries and the two optional warnings.\<close>

lemma health_prefix_keys:
  "dict_keys
     (let hs0 = [(''timestamp'', a), (''uptime'', b), (''boot_time'', c)];
          hs1 = (if cpu then dict_set ''cpu_warning'' x hs0 else hs0);
          hs2 = (if mem then dict_set ''memory_warning'' y hs1 else hs1)
      in hs2)
   = [''timestamp'', ''uptime'', ''boot_time''] @ (if cpu then [''cpu_warning''] else [])
     @ (if mem then [''memory_warning''] else [])"
  by (simp add: Let_def dict_keys_def)

text \<open>
  Claim C1, amended. The evaluator returns whenever every usage query succeeds (with a
  total that is not zero) or raises a permission error. Whenever it returns:
  \<^verbatim>\<open>cpu_warning\<close> is a key exactly when the CPU percentage exceeds 80,
  \<^verbatim>\<open>memory_warning\<close> exactly when the memory percentage exceeds 85, and the disk
  warning keyed by a device name exactly when some readable partition with that device
  name has a computed percentage over 90. There is no other key besides the three
  entries for the times, and no key occurs twice. (The claim as stated speaks of every
  readable partition on its own; the two agree when no device name is shared.)
\<close>

theorem check_system_health_warnings:
  "((\<forall>p \<in> set (disk_partitions h). usage_readable_or_denied h p) \<longrightarrow>
      (\<exists>hs. check_system_health rt h = Inr hs))
   \<and> (\<forall>hs. check_system_health rt h = Inr hs \<longrightarrow>
          (dict_has ''cpu_warning'' hs \<longleftrightarrow> 80 < cpu_percent h)
        \<and> (dict_has ''memory_warning'' hs \<longleftrightarrow> 85 < vm_percent (virtual_memory h))
        \<and> (\<forall>dev. dict_has (disk_warning_key dev) hs \<longleftrightarrow>
              (\<exists>p \<in> set (disk_partitions h). part_device p = dev \<and> over_90 h p))
        \<and> set (dict_keys hs)
            \<subseteq> {''timestamp'', ''uptime'', ''boot_time'', ''cpu_warning'', ''memory_warning''}
              \<union> disk_warning_key ` part_device ` set (disk_partitions h)
        \<and> distinct (dict_keys hs))"
proof -
  define acc where "acc =
    (let hs0 = [(''timestamp'', strftime rt (clock_now h)),
                (''uptime'', timedelta_str rt (clock_now h - boot_time h)),
                (''boot_time'', strftime rt (boot_time h))];
         hs1 = (if 80 < cpu_percent h
                then dict_set ''cpu_warning''
                       (''High CPU usage: '' @ float_str rt (cpu_percent h) @ ''%'') hs0
                else hs0);
         hs2 = (if 85 < vm_percent (virtual_memory h)
                then dict_set ''memory_warning''
                       (''High memory usage: '' @ float_str rt (vm_percent (virtual_memory h))
                        @ ''%'') hs1
                else hs1)
     in hs2)"
  have csh: "check_system_health rt h = health_disk_loop h (disk_partitions h) acc"
    by (simp add: check_system_health_def acc_def Let_def)
  have keys: "dict_keys acc
                = [''timestamp'', ''uptime'', ''boot_time'']
                  @ (if 80 < cpu_percent h then [''cpu_warning''] else [])
                  @ (if 85 < vm_percent (virtual_memory h) then [''memory_warning''] else [])"
    unfolding acc_def by (rule health_prefix_keys)
  have total: "(\<forall>p \<in> set (disk_partitions h). usage_readable_or_denied h p) \<longrightarrow>
                 (\<exists>hs. check_system_health rt h = Inr hs)"
    unfolding csh using health_disk_loop_total [of "disk_partitions h" h acc] by blast
  have rest: "(dict_has ''cpu_warning'' hs \<longleftrightarrow> 80 < cpu_percent h)
        \<and> (dict_has ''memory_warning'' hs \<longleftrightarrow> 85 < vm_percent (virtual_memory h))
        \<and> (\<forall>dev. dict_has (disk_warning_key dev) hs \<longleftrightarrow>
              (\<exists>p \<in> set (disk_partitions h). part_device p = dev \<and> over_90 h p))
        \<and> set (dict_keys hs)
            \<subseteq> {''timestamp'', ''uptime'', ''boot_time'', ''cpu_warning'', ''memory_warning''}
              \<union> disk_warning_key ` part_device ` set (disk_partitions h)
        \<and> distinct (dict_keys hs)"
    if r: "check_system_health rt h = Inr hs" for hs
  proof -
    from r have loop: "health_disk_loop h (disk_partitions h) acc = Inr hs"
      by (simp add: csh)
    define disk where
      "disk = {disk_warning_key (part_device p) | p. p \<in> set (disk_partitions h) \<and> over_90 h p}"
    have k: "set (dict_keys hs) = set (dict_keys acc) \<union> disk"
      unfolding disk_def by (rule health_disk_loop_keys [OF loop])
    have no_disk: "''cpu_warning'' \<notin> disk" "''memory_warning'' \<notin> disk"
      by (auto simp: disk_def disk_warning_key_def)
    have no_acc: "disk_warning_key dev \<notin> set (dict_keys acc)" for dev
      by (simp add: keys disk_warning_key_def)
    have in_disk: "disk_warning_key dev \<in> disk \<longleftrightarrow>
                     (\<exists>p \<in> set (disk_partitions h). part_device p = dev \<and> over_90 h p)" for dev
      by (auto simp: disk_def disk_warning_key_inject)
    have 1: "dict_has ''cpu_warning'' hs \<longleftrightarrow> 80 < cpu_percent h"
      using no_disk by (simp add: dict_has_def k keys)
    have 2: "dict_has ''memory_warning'' hs \<longleftrightarrow> 85 < vm_percent (virtual_memory h)"
      using no_disk by (simp add: dict_has_def k keys)
    have 3: "\<forall>dev. dict_has (disk_warning_key dev) hs \<longleftrightarrow>
               (\<exists>p \<in> set (disk_partitions h). part_device p = dev \<and> over_90 h p)"
      using no_acc in_disk by (simp add: dict_has_def k)
    define fixed where
      "fixed = {''timestamp'', ''uptime'', ''boot_time'', ''cpu_warning'', ''memory_warning''}"
    have "disk \<subseteq> disk_warning_key ` part_device ` set (disk_partitions h)"
      by (auto simp: disk_def)
    moreover have "set (dict_keys acc) \<subseteq> fixed"
      by (auto simp: keys fixed_def)
    ultimately have "set (dict_keys hs)
            \<subseteq> fixed \<union> disk_warning_key ` part_device ` set (disk_partitions h)"
      unfolding k by blast
    then have 4: "set (dict_keys hs)
            \<subseteq> {''timestamp'', ''uptime'', ''boot_time'', ''cpu_warning'', ''memory_warning''}
              \<union> disk_warning_key ` part_device ` set (disk_partitions h)"
      by (simp only: fixed_def)
    have "distinct (dict_keys acc)" by (simp add: keys)
    with loop have 5: "distinct (dict_keys hs)" by (rule health_disk_loop_distinct)
    from 1 2 3 4 5 show ?thesis by (intro conjI) assumption+
  qed
  have "\<forall>hs. check_system_health rt h = Inr hs \<longrightarrow>
          (dict_has ''cpu_warning'' hs \<longleftrightarrow> 80 < cpu_percent h)
        \<and> (dict_has ''memory_warning'' hs \<longleftrightarrow> 85 < vm_percent (virtual_memory h))
        \<and> (\<forall>dev. dict_has (disk_warning_key dev) hs \<longleftrightarrow>
              (\<exists>p \<in> set (disk_partitions h). part_device p = dev \<and> over_90 h p))
        \<and> set (dict_keys hs)
            \<subseteq> {''timestamp'', ''uptime'', ''boot_time'', ''cpu_warning'', ''memory_warning''}
              \<union> disk_warning_key ` part_device ` set (disk_partitions h)
        \<and> distinct (dict_keys hs)"
    by (intro allI impI) (rule rest)
  with total show ?thesis by (rule conjI)
qed

lemma part_device_examples:
  "part_device part_root = ''/dev/sda1''" "part_device part_home = ''/dev/sda2''"
  "part_device part_denied = ''/dev/sda3''" "part_device part_home_same_device = ''/dev/sda1''"
  "part_device part_vanished = ''/dev/sdb1''"
  by (simp_all add: eval_host)

lemma over_90_examples:
  "over_90 linux_host part_root" "\<not> over_90 linux_host part_home"
  "\<not> over_90 linux_host part_denied"
  "over_90 twice_mounted_host part_root" "\<not> over_90 twice_mounted_host part_home_same_device"
  by (simp_all add: over_90_def eval_host usage_percent_examples)

lemma health_disk_try_examples:
  "health_disk_try linux_host part_root = Inr (Some ''Low disk space: 96.9% used'')"
  "health_disk_try linux_host part_home = Inr None"
  "health_disk_try linux_host part_denied
     = Inl (Exn PermissionError ''[Errno 13] Permission denied'')"
  "health_disk_try twice_mounted_host part_root = Inr (Some ''Low disk space: 96.9% used'')"
  "health_disk_try twice_mounted_host part_home_same_device = Inr None"
  by (simp_all add: health_disk_try_def eval_host usage_percent_examples bind_exn_def eval_text)

lemma check_system_health_linux_host:
  "check_system_health example_runtime linux_host =
     Inr [(''timestamp'', ''<time>''), (''uptime'', ''<timedelta>''), (''boot_time'', ''<time>''),
          (''cpu_warning'', ''High CPU usage: <float>%''),
          (''disk_warning_/dev/sda1'', ''Low disk space: 96.9% used'')]"
proof -
  have "disk_partitions linux_host = [part_root, part_home, part_denied]"
    "cpu_percent linux_host = 81" "vm_percent (virtual_memory linux_host) = 50"
    by (simp_all add: linux_host_def)
  then show ?thesis
    by (simp add: check_system_health_def health_disk_try_examples example_runtime_def
        disk_warning_key_def part_device_examples Let_def)
qed

theorem check_system_health_warnings_witness:
  "disk_partitions linux_host = [part_root, part_home, part_denied]
   \<and> usage_readable_or_denied linux_host part_root
   \<and> usage_readable_or_denied linux_host part_home
   \<and> usage_readable_or_denied linux_host part_denied
   \<and> check_system_health example_runtime linux_host =
       Inr [(''timestamp'', ''<time>''), (''uptime'', ''<timedelta>''),
            (''boot_time'', ''<time>''),
            (''cpu_warning'', ''High CPU usage: <float>%''),
            (''disk_warning_/dev/sda1'', ''Low disk space: 96.9% used'')]
   \<and> (80 < cpu_percent linux_host)
   \<and> \<not> 85 < vm_percent (virtual_memory linux_host)
   \<and> over_90 linux_host part_root
   \<and> \<not> over_90 linux_host part_home
   \<and> \<not> over_90 linux_host part_denied
   \<and> isl (disk_usage linux_host (part_mountpoint part_denied))"
proof -
  define hs where "hs =
       [(''timestamp'', ''<time>''), (''uptime'', ''<timedelta>''), (''boot_time'', ''<time>''),
        (''cpu_warning'', ''High CPU usage: <float>%''),
        (''disk_warning_/dev/sda1'', ''Low disk space: 96.9% used'')]"
  have ps: "disk_partitions linux_host = [part_root, part_home, part_denied]"
    by (simp add: linux_host_def)
  have r: "check_system_health example_runtime linux_host = Inr hs"
    unfolding hs_def by (rule check_system_health_linux_host)
  note t = check_system_health_warnings [of linux_host example_runtime, THEN conjunct2,
      rule_format, OF r]
  from t have "dict_has ''cpu_warning'' hs \<longleftrightarrow> 80 < cpu_percent linux_host" by simp
  then have c: "80 < cpu_percent linux_host" by (simp add: hs_def dict_has_def dict_keys_def)
  from t have "dict_has ''memory_warning'' hs \<longleftrightarrow> 85 < vm_percent (virtual_memory linux_host)"
    by simp
  then have m: "\<not> 85 < vm_percent (virtual_memory linux_host)"
    by (simp add: hs_def dict_has_def dict_keys_def)
  have k: "isl (disk_usage linux_host (part_mountpoint part_denied))"
    by (simp add: eval_host)
  from ps r c m k show ?thesis
    by (simp add: hs_def usage_readable_or_denied_examples over_90_examples)
qed

text \<open>
  Claim C1 as stated fails where two partitions have the same device name and only one
  of them is over 90 percent: the partition mounted at \<^verbatim>\<open>/home\<close> is readable and half
  full, and the warning keyed by its device is present.
\<close>

theorem shared_device_warning:
  "disk_partitions twice_mounted_host = [part_root, part_home_same_device]
   \<and> disk_usage twice_mounted_host (part_mountpoint part_home_same_device)
       = Inr \<lparr> du_total = 137438953472, du_used = 68719476736, du_free = 68719476736 \<rparr>
   \<and> usage_percent \<lparr> du_total = 137438953472, du_used = 68719476736, du_free = 68719476736 \<rparr>
       = Inr (Finite 50)
   \<and> \<not> py_gt (Finite 50) 90
   \<and> check_system_health example_runtime twice_mounted_host =
       Inr [(''timestamp'', ''<time>''), (''uptime'', ''<timedelta>''),
            (''boot_time'', ''<time>''),
            (''cpu_warning'', ''High CPU usage: <float>%''),
            (''disk_warning_/dev/sda1'', ''Low disk space: 96.9% used'')]
   \<and> disk_warning_key (part_device part_home_same_device) = ''disk_warning_/dev/sda1''"
proof -
  have "disk_partitions twice_mounted_host = [part_root, part_home_same_device]"
    "cpu_percent twice_mounted_host = 81" "vm_percent (virtual_memory twice_mounted_host) = 50"
    by (simp_all add: twice_mounted_host_def linux_host_def)
  then have "check_system_health example_runtime twice_mounted_host =
       Inr [(''timestamp'', ''<time>''), (''uptime'', ''<timedelta>''),
            (''boot_time'', ''<time>''),
            (''cpu_warning'', ''High CPU usage: <float>%''),
            (''disk_warning_/dev/sda1'', ''Low disk space: 96.9% used'')]"
    by (simp add: check_system_health_def health_disk_try_examples example_runtime_def
        disk_warning_key_def part_device_examples Let_def)
  then show ?thesis
    by (simp add: usage_percent_examples disk_warning_key_def part_device_examples)
      (simp add: eval_host)
qed

end
